theory Spec2Isabelle
  imports Main "HOL-Library.Char_ord" "HOL-Library.List_Lexorder"
begin

section \<open>JavaScript and SQL values as the server uses them\<close>

text \<open>
  The server (\<^verbatim>\<open>src/server.js\<close>) is an Express application over a Postgres database
  (\<^verbatim>\<open>src/supabase-schema.sql\<close>). Amounts are integers in cents. A JavaScript number that
  holds an integer is modelled as \<^typ>\<open>int\<close> (a double is exact below \<open>2^53\<close>, far above any
  amount an INTEGER column can store); a timestamp is the number of milliseconds that
  \<^verbatim>\<open>Date\<close> compares; a UUID is its text.
\<close>

type_synonym uuid = string
type_synonym timestamp = int

datatype js_error = TypeError

text \<open>
  Every object literal inherits the members of \<^verbatim>\<open>Object.prototype\<close>, so
  \<^verbatim>\<open>obj[key]\<close> with one of these keys is a function or an object, never
  \<^verbatim>\<open>undefined\<close>.
\<close>

definition objectPrototypeKeys :: "string list" where
  "objectPrototypeKeys =
     [''constructor'', ''toString'', ''toLocaleString'', ''valueOf'', ''hasOwnProperty'',
      ''isPrototypeOf'', ''propertyIsEnumerable'', ''__proto__'', ''__defineGetter__'',
      ''__defineSetter__'', ''__lookupGetter__'', ''__lookupSetter__'']"

text \<open>\<^verbatim>\<open>String.prototype.toUpperCase\<close> and \<^verbatim>\<open>toLowerCase\<close>, on ASCII letters.\<close>

definition toUpperChar :: "char \<Rightarrow> char" where
  "toUpperChar c =
     (case map_of (zip ''abcdefghijklmnopqrstuvwxyz'' ''ABCDEFGHIJKLMNOPQRSTUVWXYZ'') c of
        Some u \<Rightarrow> u
      | None \<Rightarrow> c)"

definition toUpperCase :: "string \<Rightarrow> string" where
  "toUpperCase s = map toUpperChar s"

definition toLowerChar :: "char \<Rightarrow> char" where
  "toLowerChar c =
     (case map_of (zip ''ABCDEFGHIJKLMNOPQRSTUVWXYZ'' ''abcdefghijklmnopqrstuvwxyz'') c of
        Some l \<Rightarrow> l
      | None \<Rightarrow> c)"

definition toLowerCase :: "string \<Rightarrow> string" where
  "toLowerCase s = map toLowerChar s"

text \<open>
  Truthiness of the values the handlers test with \<^verbatim>\<open>!x\<close>, \<^verbatim>\<open>x && ...\<close> and
  \<^verbatim>\<open>x || d\<close>: an absent (\<^verbatim>\<open>undefined\<close> or \<^verbatim>\<open>null\<close>) value, the empty string
  and the number 0 are falsy. For a text it is the test below; for a number the handlers'
  models write the comparison with 0 out.
\<close>

definition truthy_str :: "string option \<Rightarrow> bool" where
  "truthy_str v = (case v of None \<Rightarrow> False | Some s \<Rightarrow> s \<noteq> [])"

text \<open>
  The query builder's \<^verbatim>\<open>.single()\<close>: the row when the query matches exactly one row,
  no data (and an error the handlers mostly ignore) otherwise.
\<close>

definition single :: "'a list \<Rightarrow> 'a option" where
  "single rows = (case rows of [r] \<Rightarrow> Some r | _ \<Rightarrow> None)"

section \<open>Pricing engine\<close>

record tier =
  tier_min :: int
  tier_max :: int
  pricePerUnit :: int

record tiers =
  tier1 :: tier
  tier2 :: tier
  tier3 :: tier

text \<open>What \<^verbatim>\<open>PRICING[key]\<close> evaluates to.\<close>

datatype pricing_member =
    Tiers tiers
  | Amount int
  | Text string
  | Inherited
  | Undefined

definition personal :: tiers where
  "personal =
     \<lparr>tier1 = \<lparr>tier_min = 1, tier_max = 5, pricePerUnit = 1000\<rparr>,
      tier2 = \<lparr>tier_min = 6, tier_max = 11, pricePerUnit = 800\<rparr>,
      tier3 = \<lparr>tier_min = 12, tier_max = 999, pricePerUnit = 700\<rparr>\<rparr>"

definition business :: tiers where
  "business =
     \<lparr>tier1 = \<lparr>tier_min = 1, tier_max = 5, pricePerUnit = 1000\<rparr>,
      tier2 = \<lparr>tier_min = 6, tier_max = 11, pricePerUnit = 800\<rparr>,
      tier3 = \<lparr>tier_min = 12, tier_max = 999, pricePerUnit = 700\<rparr>\<rparr>"

definition shipping :: int where
  "shipping = 800"

definition PRICING :: "string \<Rightarrow> pricing_member" where
  "PRICING key =
     (if key = ''personal'' then Tiers personal
      else if key = ''business'' then Tiers business
      else if key = ''shipping'' then Amount shipping
      else if key = ''freePickupLocation'' then Text ''Forbes NSW''
      else if key \<in> set objectPrototypeKeys then Inherited
      else Undefined)"

text \<open>
  \<^verbatim>\<open>calculatePrice(quantity, productType)\<close>. \<^verbatim>\<open>PRICING[productType] || PRICING.personal\<close>
  falls back to the personal tiers only when the lookup is \<^verbatim>\<open>undefined\<close>: the other
  members (800, a non-empty string, inherited functions) are truthy, have no
  \<^verbatim>\<open>tier3\<close>, and reading \<^verbatim>\<open>tiers.tier3.min\<close> throws a TypeError.
\<close>

definition calculatePrice :: "int \<Rightarrow> string \<Rightarrow> js_error + int" where
  "calculatePrice quantity productType =
     (case (case PRICING productType of Undefined \<Rightarrow> PRICING ''personal'' | m \<Rightarrow> m) of
        Tiers t \<Rightarrow>
          if quantity \<ge> tier_min (tier3 t) then Inr (quantity * pricePerUnit (tier3 t))
          else if quantity \<ge> tier_min (tier2 t) then Inr (quantity * pricePerUnit (tier2 t))
          else Inr (quantity * pricePerUnit (tier1 t))
      | _ \<Rightarrow> Inl TypeError)"

text \<open>
  The names that are not product types although \<^verbatim>\<open>PRICING\<close> has a member for them:
  the two configuration entries and the inherited members.
\<close>

definition nonProductKeys :: "string list" where
  "nonProductKeys = [''shipping'', ''freePickupLocation''] @ objectPrototypeKeys"

text \<open>
  An INTEGER of the database is a 32-bit integer: Postgres raises "integer out of range"
  (22003) when a value that leaves this range is computed or stored, and the statement
  changes nothing. The stored function \<^verbatim>\<open>calculate_order_price(qty INTEGER) RETURNS INTEGER\<close>
  of the schema is the first place this matters.
\<close>

datatype sql_error = IntegerOutOfRange

definition int4_ok :: "int \<Rightarrow> bool" where
  "int4_ok v = (- 2147483648 \<le> v \<and> v \<le> 2147483647)"

definition int4 :: "int \<Rightarrow> sql_error + int" where
  "int4 v = (if int4_ok v then Inr v else Inl IntegerOutOfRange)"

definition calculate_order_price :: "int \<Rightarrow> sql_error + int" where
  "calculate_order_price qty =
     (if qty \<ge> 12 then int4 (qty * 700)
      else if qty \<ge> 6 then int4 (qty * 800)
      else int4 (qty * 1000))"

section \<open>Database tables\<close>

text \<open>
  One record per table of the schema, with the columns the handlers read or write. A
  nullable column is an \<open>option\<close>. The columns \<^verbatim>\<open>uses_count\<close> and
  \<^verbatim>\<open>min_order_amount\<close> default to 0, and a NULL there compares as 0 in JavaScript, so
  they are plain integers. Columns that only carry request text through (address lines,
  gift flag and message, customer notes, creation times) are left out.
\<close>

record promo_code =
  promo_id :: uuid
  code :: string
  discount_type :: string
  discount_value :: int
  min_order_amount :: int
  max_uses :: "int option"
  uses_count :: int
  max_uses_per_customer :: "int option"
  is_active :: bool
  starts_at :: "timestamp option"
  expires_at :: "timestamp option"
  description :: "string option"

record promo_code_usage_row =
  usage_promo_code_id :: uuid
  usage_customer_id :: "uuid option"

record customer =
  cust_id :: uuid
  cust_phone :: string
  cust_name :: string
  cust_email :: "string option"
  order_count :: int
  total_spent :: int
  cust_updated_at :: timestamp

record order =
  order_id :: uuid
  order_number :: string
  customer_id :: "uuid option"
  customer_name :: string
  customer_phone :: string
  customer_email :: "string option"
  shipping_type :: string
  product_type :: string
  quantity :: int
  subtotal :: int
  shipping_cost :: int
  discount_amount :: int
  promo_code_id :: "uuid option"
  promo_code_used :: "string option"
  total :: int
  admin_notes :: "string option"
  status :: string
  stripe_payment_intent_id :: "string option"
  stripe_checkout_session_id :: "string option"
  tracking_number :: "string option"
  carrier :: "string option"
  paid_at :: "timestamp option"
  printed_at :: "timestamp option"
  shipped_at :: "timestamp option"
  completed_at :: "timestamp option"
  updated_at :: timestamp

record admin =
  admin_user_id :: uuid
  role :: string

record admin_log =
  log_admin_id :: uuid
  log_action :: string
  log_target_type :: string
  log_target_id :: string

text \<open>A message handed to an outbound channel (the email API or the push service).\<close>

datatype notification =
    CustomerConfirmation string string
  | StaffPush string
  | StaffEmail string

text \<open>The persisted tables, and the messages sent so far.\<close>

record state =
  orders :: "order list"
  customers :: "customer list"
  promo_codes :: "promo_code list"
  promo_code_usage :: "promo_code_usage_row list"
  admins :: "admin list"
  admin_logs :: "admin_log list"
  sent :: "notification list"

section \<open>Promo validator\<close>

text \<open>
  The percentage discount is \<^verbatim>\<open>Math.floor(subtotal * (discount_value / 100))\<close> on
  doubles. A double is written as a pair \<open>(m, e)\<close> that stands for \<open>m * 2^e\<close>. The division
  and the product are each rounded to the nearest double, ties to even: 53 significant
  bits, with the exponent range left out (no amount comes near it).
\<close>

function bitlen :: "int \<Rightarrow> int" where
  "bitlen n = (if n \<le> 0 then 0 else 1 + bitlen (n div 2))"
  by pat_completeness auto
termination
  by (relation "measure nat") auto

declare bitlen.simps [simp del]

text \<open>The integer nearest to \<open>a / b\<close> for \<open>b > 0\<close>, a tie going to the even one.\<close>

definition round_half_even :: "int \<Rightarrow> int \<Rightarrow> int" where
  "round_half_even a b =
     (let q = a div b; r = a mod b
      in if 2 * r < b then q
         else if 2 * r > b then q + 1
         else if even q then q else q + 1)"

text \<open>
  The double nearest to \<open>a / b\<close> for \<open>b > 0\<close>: the exponent \<open>e\<close> is chosen so that
  \<open>|a| / (b * 2^e)\<close> lies between \<open>2^52\<close> and \<open>2^53\<close>, and that quotient is rounded.
\<close>

definition to_double :: "int \<Rightarrow> int \<Rightarrow> int \<times> int" where
  "to_double a b =
     (if a = 0 then (0, 0)
      else
        (let n = \<bar>a\<bar>;
             e1 = bitlen n - bitlen b - 53;
             e = (if (if e1 \<ge> 0 then n else n * 2 ^ nat (- e1))
                       < 2 ^ 53 * (if e1 \<ge> 0 then b * 2 ^ nat e1 else b)
                  then e1 else e1 + 1);
             num = (if e \<ge> 0 then n else n * 2 ^ nat (- e));
             den = (if e \<ge> 0 then b * 2 ^ nat e else b)
         in (sgn a * round_half_even num den, e)))"

definition mul_double :: "int \<times> int \<Rightarrow> int \<times> int \<Rightarrow> int \<times> int" where
  "mul_double x y =
     (let m = fst x * fst y; e = snd x + snd y
      in if e \<ge> 0 then to_double (m * 2 ^ nat e) 1 else to_double m (2 ^ nat (- e)))"

definition floor_double :: "int \<times> int \<Rightarrow> int" where
  "floor_double x =
     (if snd x \<ge> 0 then fst x * 2 ^ nat (snd x) else fst x div 2 ^ nat (- snd x))"

definition percentage_discount :: "int \<Rightarrow> int \<Rightarrow> int" where
  "percentage_discount amount percent =
     floor_double (mul_double (to_double amount 1) (to_double percent 100))"

text \<open>The body of \<^verbatim>\<open>POST /api/validate-promo\<close>.\<close>

record promo_request =
  req_code :: "string option"
  req_subtotal :: "int option"
  req_customerId :: "string option"

datatype promo_rejection =
    PromoCodeRequired
  | InvalidPromoCode
  | PromoExpired
  | PromoNotYetActive
  | UsageLimitReached
  | MinimumOrderRequired int
  | AlreadyUsed

record promo_quote =
  promoId :: uuid
  quote_code :: string
  discountType :: string
  discountValue :: int
  calculatedDiscount :: int

text \<open>The HTTP status that goes with each rejection.\<close>

fun rejection_status :: "promo_rejection \<Rightarrow> nat" where
  "rejection_status InvalidPromoCode = 404"
| "rejection_status _ = 400"

text \<open>The lookup: the active row whose code is the upper-cased request code.\<close>

definition find_active_promo :: "string \<Rightarrow> state \<Rightarrow> promo_code option" where
  "find_active_promo c s =
     single (filter (\<lambda>p. code p = toUpperCase c \<and> is_active p) (promo_codes s))"

text \<open>The five conditions the handler tests after the lookup, each as the source has it.\<close>

definition expired :: "promo_code \<Rightarrow> timestamp \<Rightarrow> bool" where
  "expired promo now = (case expires_at promo of None \<Rightarrow> False | Some e \<Rightarrow> e < now)"

definition not_yet_active :: "promo_code \<Rightarrow> timestamp \<Rightarrow> bool" where
  "not_yet_active promo now = (case starts_at promo of None \<Rightarrow> False | Some b \<Rightarrow> b > now)"

definition limit_reached :: "promo_code \<Rightarrow> bool" where
  "limit_reached promo =
     (case max_uses promo of None \<Rightarrow> False | Some m \<Rightarrow> m \<noteq> 0 \<and> uses_count promo \<ge> m)"

definition below_minimum :: "promo_code \<Rightarrow> int option \<Rightarrow> bool" where
  "below_minimum promo sub =
     (case sub of None \<Rightarrow> False | Some a \<Rightarrow> a \<noteq> 0 \<and> a < min_order_amount promo)"

definition customer_usage_count :: "promo_code \<Rightarrow> string \<Rightarrow> state \<Rightarrow> int" where
  "customer_usage_count promo cid s =
     int (length (filter (\<lambda>u. usage_promo_code_id u = promo_id promo
                              \<and> usage_customer_id u = Some cid) (promo_code_usage s)))"

definition customer_limit_reached :: "promo_code \<Rightarrow> string option \<Rightarrow> state \<Rightarrow> bool" where
  "customer_limit_reached promo cust s =
     (case cust of
        None \<Rightarrow> False
      | Some cid \<Rightarrow>
          cid \<noteq> [] \<and>
          (case max_uses_per_customer promo of
             None \<Rightarrow> False
           | Some m \<Rightarrow> m \<noteq> 0 \<and> customer_usage_count promo cid s \<ge> m))"

definition promo_discount :: "promo_code \<Rightarrow> int \<Rightarrow> int" where
  "promo_discount promo amount =
     (if discount_type promo = ''percentage'' then percentage_discount amount (discount_value promo)
      else discount_value promo)"

definition quote :: "promo_code \<Rightarrow> int option \<Rightarrow> promo_quote" where
  "quote promo sub =
     \<lparr>promoId = promo_id promo, quote_code = code promo, discountType = discount_type promo,
      discountValue = discount_value promo,
      calculatedDiscount = promo_discount promo (case sub of None \<Rightarrow> 0 | Some a \<Rightarrow> a)\<rparr>"

text \<open>
  The handler of \<^verbatim>\<open>POST /api/validate-promo\<close>, with the clock read once. It writes
  nothing.
\<close>

definition validate_promo :: "timestamp \<Rightarrow> promo_request \<Rightarrow> state \<Rightarrow> promo_rejection + promo_quote" where
  "validate_promo now req s =
     (case req_code req of
        None \<Rightarrow> Inl PromoCodeRequired
      | Some c \<Rightarrow>
          if c = [] then Inl PromoCodeRequired
          else
            (case find_active_promo c s of
               None \<Rightarrow> Inl InvalidPromoCode
             | Some promo \<Rightarrow>
                 if expired promo now then Inl PromoExpired
                 else if not_yet_active promo now then Inl PromoNotYetActive
                 else if limit_reached promo then Inl UsageLimitReached
                 else if below_minimum promo (req_subtotal req)
                   then Inl (MinimumOrderRequired (min_order_amount promo))
                 else if customer_limit_reached promo (req_customerId req) s then Inl AlreadyUsed
                 else Inr (quote promo (req_subtotal req))))"

text \<open>
  The rule "checked in this order, the first failing check wins", in the words of the
  specification: the checks as a list in the stated order, and the reason of the first one
  that fails.
\<close>

definition first_failing :: "(bool \<times> 'r) list \<Rightarrow> 'r option" where
  "first_failing checks = map_option snd (find fst checks)"

definition checks_in_order :: "timestamp \<Rightarrow> promo_request \<Rightarrow> state \<Rightarrow> promo_code \<Rightarrow> (bool \<times> promo_rejection) list" where
  "checks_in_order now req s promo =
     [(expired promo now, PromoExpired),
      (not_yet_active promo now, PromoNotYetActive),
      (limit_reached promo, UsageLimitReached),
      (below_minimum promo (req_subtotal req), MinimumOrderRequired (min_order_amount promo)),
      (customer_limit_reached promo (req_customerId req) s, AlreadyUsed)]"

section \<open>Admin authorization\<close>

text \<open>
  The process environment: a variable is absent or a string. \<^verbatim>\<open>OWNER_EMAILS\<close> is the
  list the module computes once at load time (split at commas, trimmed, lower-cased).
\<close>

record config =
  RESEND_API_KEY :: "string option"
  NTFY_TOPIC :: "string option"
  ADMIN_EMAIL :: "string option"
  OWNER_EMAILS :: "string list"

text \<open>
  The identity provider, an external service: \<^verbatim>\<open>auth.getUser(token)\<close> and
  \<^verbatim>\<open>auth.admin.getUserById(id)\<close> give a user or none.
\<close>

record auth_user =
  user_id :: uuid
  user_email :: "string option"

record identity_provider =
  getUser :: "string \<Rightarrow> auth_user option"
  getUserById :: "uuid \<Rightarrow> auth_user option"

record principal =
  userId :: uuid
  email :: "string option"
  principal_role :: string

text \<open>
  The token of an \<^verbatim>\<open>Authorization\<close> header: none unless the header starts with
  \<^verbatim>\<open>'Bearer '\<close>; then \<^verbatim>\<open>authHeader.split(' ')[1]\<close>, the text between the first
  space and the next one.
\<close>

definition bearer_token :: "string option \<Rightarrow> string option" where
  "bearer_token authHeader =
     (case authHeader of
        None \<Rightarrow> None
      | Some h \<Rightarrow>
          if take 7 h \<noteq> ''Bearer '' then None
          else Some (takeWhile (\<lambda>ch. ch \<noteq> CHR '' '') (drop 7 h)))"

text \<open>\<^verbatim>\<open>OWNER_EMAILS.includes(user.email?.toLowerCase())\<close>\<close>

definition is_owner :: "config \<Rightarrow> string option \<Rightarrow> bool" where
  "is_owner cfg mail =
     (case mail of None \<Rightarrow> False | Some e \<Rightarrow> toLowerCase e \<in> set (OWNER_EMAILS cfg))"

text \<open>
  \<^verbatim>\<open>roleHierarchy[r]\<close>: a number for the four role names, nothing for any other name;
  for an inherited key it is a function or an object, which a comparison converts to its
  text as Node prints it.
\<close>

datatype js_level = Level int | Member string

definition inherited_text :: "string \<Rightarrow> string" where
  "inherited_text key =
     (if key = ''__proto__'' then ''[object Object]''
      else if key = ''constructor'' then ''function Object() { [native code] }''
      else ''function '' @ key @ ''() { [native code] }'')"

definition roleHierarchy :: "string \<Rightarrow> js_level option" where
  "roleHierarchy r =
     (if r = ''owner'' then Some (Level 4)
      else if r = ''super_admin'' then Some (Level 3)
      else if r = ''admin'' then Some (Level 2)
      else if r = ''moderator'' then Some (Level 1)
      else if r \<in> set objectPrototypeKeys then Some (Member (inherited_text r))
      else None)"

text \<open>\<^verbatim>\<open>roleHierarchy[requiredRole] || 2\<close> and \<^verbatim>\<open>roleHierarchy[admin.role] || 0\<close>\<close>

definition requiredLevel :: "string \<Rightarrow> js_level" where
  "requiredLevel requiredRole =
     (case roleHierarchy requiredRole of
        None \<Rightarrow> Level 2
      | Some (Level n) \<Rightarrow> if n = 0 then Level 2 else Level n
      | Some (Member t) \<Rightarrow> Member t)"

definition userLevel :: "string \<Rightarrow> js_level" where
  "userLevel r =
     (case roleHierarchy r of
        None \<Rightarrow> Level 0
      | Some (Level n) \<Rightarrow> Level n
      | Some (Member t) \<Rightarrow> Member t)"

text \<open>
  \<^verbatim>\<open>a >= b\<close>: two numbers compare as numbers and two texts by their characters; a
  number against a text makes the text NaN, and the comparison is false.
\<close>

fun level_ge :: "js_level \<Rightarrow> js_level \<Rightarrow> bool" where
  "level_ge (Level a) (Level b) = (a \<ge> b)"
| "level_ge (Member a) (Member b) = (a \<ge> b)"
| "level_ge _ _ = False"

text \<open>
  \<^verbatim>\<open>verifyAdmin(req, requiredRole = 'admin')\<close>: the caller's principal, or none. The
  required role is absent where the call site passes one argument.
\<close>

definition verifyAdmin :: "config \<Rightarrow> identity_provider \<Rightarrow> state \<Rightarrow> string option \<Rightarrow> string option \<Rightarrow> principal option" where
  "verifyAdmin cfg idp s authHeader required =
     (let requiredRole = (case required of None \<Rightarrow> ''admin'' | Some r \<Rightarrow> r) in
      case bearer_token authHeader of
        None \<Rightarrow> None
      | Some token \<Rightarrow>
          (case getUser idp token of
             None \<Rightarrow> None
           | Some user \<Rightarrow>
               if is_owner cfg (user_email user)
               then Some \<lparr>userId = user_id user, email = user_email user, principal_role = ''owner''\<rparr>
               else
                 (case single (filter (\<lambda>a. admin_user_id a = user_id user) (admins s)) of
                    None \<Rightarrow> None
                  | Some adm \<Rightarrow>
                      if level_ge (userLevel (role adm)) (requiredLevel requiredRole)
                      then Some \<lparr>userId = user_id user, email = user_email user,
                                 principal_role = role adm\<rparr>
                      else None)))"

text \<open>\<^verbatim>\<open>logAdminAction\<close> appends to the audit trail.\<close>

definition logAdminAction :: "uuid \<Rightarrow> string \<Rightarrow> string \<Rightarrow> string \<Rightarrow> state \<Rightarrow> state" where
  "logAdminAction adminId act targetType targetId s =
     s\<lparr>admin_logs := admin_logs s @
         [\<lparr>log_admin_id = adminId, log_action = act, log_target_type = targetType,
           log_target_id = targetId\<rparr>]\<rparr>"

datatype admin_response = Forbidden | CannotRemoveOwner | InvalidStatus | Success

text \<open>\<^verbatim>\<open>DELETE /api/admin/admins/:userId\<close>\<close>

definition remove_admin :: "config \<Rightarrow> identity_provider \<Rightarrow> string option \<Rightarrow> uuid \<Rightarrow> state \<Rightarrow> admin_response \<times> state" where
  "remove_admin cfg idp authHeader target s =
     (case verifyAdmin cfg idp s authHeader (Some ''super_admin'') of
        None \<Rightarrow> (Forbidden, s)
      | Some adm \<Rightarrow>
          if is_owner cfg (case getUserById idp target of None \<Rightarrow> None | Some u \<Rightarrow> user_email u)
          then (CannotRemoveOwner, s)
          else (Success,
                logAdminAction (userId adm) ''remove_admin'' ''admin'' target
                  (s\<lparr>admins := filter (\<lambda>a. admin_user_id a \<noteq> target) (admins s)\<rparr>)))"

text \<open>
  The rule of the specification, in its words: the numeric level of a role (a name that
  is no role has none, written 0), and the level an operation requires (\<open>admin\<close>, 2, when
  the operation names no role or an unknown one).
\<close>

definition spec_level :: "string \<Rightarrow> int" where
  "spec_level r =
     (if r = ''owner'' then 4 else if r = ''super_admin'' then 3
      else if r = ''admin'' then 2 else if r = ''moderator'' then 1 else 0)"

definition spec_required_level :: "string option \<Rightarrow> int" where
  "spec_required_level required =
     (case required of
        None \<Rightarrow> 2
      | Some r \<Rightarrow> if spec_level r = 0 then 2 else spec_level r)"

section \<open>Order lifecycle\<close>

subsection \<open>Status update by staff\<close>

text \<open>
  The body of \<^verbatim>\<open>PUT /api/admin/orders/:id/status\<close>. \<^verbatim>\<open>admin_notes\<close> is absent
  (\<^verbatim>\<open>undefined\<close>), or present with a text or \<^verbatim>\<open>null\<close>.
\<close>

record status_request =
  new_status :: "string option"
  new_tracking_number :: "string option"
  new_carrier :: "string option"
  new_admin_notes :: "string option option"

definition validStatuses :: "string list" where
  "validStatuses = [''pending'', ''paid'', ''printing'', ''shipped'', ''ready_pickup'',
                    ''completed'', ''cancelled'', ''archived'']"

text \<open>
  The row after \<^verbatim>\<open>update(updateData)\<close>: a column that \<^verbatim>\<open>updateData\<close> does not name
  keeps its value. The clock is read once.
\<close>

definition apply_status_update :: "timestamp \<Rightarrow> string \<Rightarrow> status_request \<Rightarrow> order \<Rightarrow> order" where
  "apply_status_update now st req ord =
     ord\<lparr>status := st,
         updated_at := now,
         printed_at := (if st = ''printing'' then Some now else printed_at ord),
         shipped_at := (if st = ''shipped'' \<or> st = ''ready_pickup'' then Some now
                        else shipped_at ord),
         completed_at := (if st = ''completed'' then Some now else completed_at ord),
         tracking_number := (if truthy_str (new_tracking_number req) then new_tracking_number req
                             else tracking_number ord),
         carrier := (if truthy_str (new_carrier req) then new_carrier req else carrier ord),
         admin_notes := (case new_admin_notes req of None \<Rightarrow> admin_notes ord | Some v \<Rightarrow> v)\<rparr>"

definition update_order_status :: "config \<Rightarrow> identity_provider \<Rightarrow> timestamp \<Rightarrow> string option \<Rightarrow> uuid \<Rightarrow> status_request \<Rightarrow> state \<Rightarrow> admin_response \<times> state" where
  "update_order_status cfg idp now authHeader oid req s =
     (case verifyAdmin cfg idp s authHeader None of
        None \<Rightarrow> (Forbidden, s)
      | Some adm \<Rightarrow>
          (case new_status req of
             None \<Rightarrow> (InvalidStatus, s)
           | Some st \<Rightarrow>
               if st \<notin> set validStatuses then (InvalidStatus, s)
               else (Success,
                     logAdminAction (userId adm) ''update_order_status'' ''order'' oid
                       (s\<lparr>orders := map (\<lambda>ord. if order_id ord = oid
                                                then apply_status_update now st req ord
                                                else ord) (orders s)\<rparr>))))"

subsection \<open>Payment confirmation\<close>

text \<open>
  The event of the payment gateway, as \<^verbatim>\<open>stripe.webhooks.constructEvent\<close> returns it
  once the signature is verified; \<^verbatim>\<open>session\<close> is \<^verbatim>\<open>event.data.object\<close>.
\<close>

record checkout_session =
  session_id :: string
  payment_intent :: "string option"
  metadata_orderId :: "string option"
  metadata_orderNumber :: "string option"

record stripe_event =
  event_type :: string
  session :: checkout_session

datatype webhook_response = SignatureError | Received | ProcessingFailed

text \<open>
  \<^verbatim>\<open>sendOrderConfirmationEmail(order)\<close> and \<^verbatim>\<open>sendAdminNotification(order)\<close>: the
  messages handed to the channels. A failed delivery is caught and logged inside, so the
  only error is the TypeError of reading a field of a missing order.
\<close>

definition sendOrderConfirmationEmail :: "config \<Rightarrow> order option \<Rightarrow> js_error + notification list" where
  "sendOrderConfirmationEmail cfg ord =
     (if \<not> truthy_str (RESEND_API_KEY cfg) then Inr []
      else
        (case ord of
           None \<Rightarrow> Inl TypeError
         | Some ord' \<Rightarrow>
             (case customer_email ord' of
                None \<Rightarrow> Inr []
              | Some mail \<Rightarrow>
                  if mail = [] then Inr []
                  else Inr [CustomerConfirmation (order_number ord') mail])))"

definition sendAdminNotification :: "config \<Rightarrow> order option \<Rightarrow> js_error + notification list" where
  "sendAdminNotification cfg ord =
     (case ord of
        None \<Rightarrow> Inl TypeError
      | Some ord' \<Rightarrow>
          Inr ((if truthy_str (NTFY_TOPIC cfg) then [StaffPush (order_number ord')] else [])
               @ (if truthy_str (RESEND_API_KEY cfg) \<and> truthy_str (ADMIN_EMAIL cfg)
                  then [StaffEmail (order_number ord')] else [])))"

text \<open>
  The stored function \<^verbatim>\<open>increment_customer_stats(p_customer_id, p_order_total)\<close>. Its
  parameter and the two columns are INTEGER: when the total or one of the sums leaves
  the range the call fails and changes nothing, and the handler does not look at the
  outcome of the call.
\<close>

definition stats_fit :: "uuid \<Rightarrow> int \<Rightarrow> state \<Rightarrow> bool" where
  "stats_fit p_customer_id p_order_total s =
     (int4_ok p_order_total
      \<and> list_all (\<lambda>c. int4_ok (order_count c + 1) \<and> int4_ok (total_spent c + p_order_total))
           (filter (\<lambda>c. cust_id c = p_customer_id) (customers s)))"

definition increment_customer_stats :: "uuid \<Rightarrow> int \<Rightarrow> timestamp \<Rightarrow> state \<Rightarrow> state" where
  "increment_customer_stats p_customer_id p_order_total now s =
     (if stats_fit p_customer_id p_order_total s
      then s\<lparr>customers := map (\<lambda>c. if cust_id c = p_customer_id
                                     then c\<lparr>order_count := order_count c + 1,
                                            total_spent := total_spent c + p_order_total,
                                            cust_updated_at := now\<rparr>
                                     else c) (customers s)\<rparr>
      else s)"

definition find_order :: "uuid \<Rightarrow> state \<Rightarrow> order option" where
  "find_order oid s = single (filter (\<lambda>ord. order_id ord = oid) (orders s))"

definition mark_paid :: "timestamp \<Rightarrow> checkout_session \<Rightarrow> order \<Rightarrow> order" where
  "mark_paid now sess ord =
     ord\<lparr>status := ''paid'',
         stripe_payment_intent_id := payment_intent sess,
         stripe_checkout_session_id := Some (session_id sess),
         paid_at := Some now,
         updated_at := now\<rparr>"

text \<open>
  The block "Update customer stats": \<^verbatim>\<open>if (order?.customer_id)\<close> the stored function
  is called with the order's customer and total.
\<close>

definition update_customer_stats :: "order option \<Rightarrow> timestamp \<Rightarrow> state \<Rightarrow> state" where
  "update_customer_stats ord now s =
     (case ord of
        None \<Rightarrow> s
      | Some ord' \<Rightarrow>
          (case customer_id ord' of
             None \<Rightarrow> s
           | Some cid \<Rightarrow>
               if cid = [] then s else increment_customer_stats cid (total ord') now s))"

text \<open>
  The steps of the handler after the idempotency check: mark the order paid, read it
  back, add to the customer's statistics, notify.
\<close>

definition confirm_payment :: "config \<Rightarrow> timestamp \<Rightarrow> checkout_session \<Rightarrow> uuid \<Rightarrow> state \<Rightarrow> webhook_response \<times> state" where
  "confirm_payment cfg now sess orderId s =
     (let s1 = s\<lparr>orders := map (\<lambda>ord. if order_id ord = orderId then mark_paid now sess ord
                                        else ord) (orders s)\<rparr>;
          ord = find_order orderId s1;
          s2 = update_customer_stats ord now s1
      in case sendOrderConfirmationEmail cfg ord of
           Inl e \<Rightarrow> (ProcessingFailed, s2)
         | Inr mails \<Rightarrow>
             (case sendAdminNotification cfg ord of
                Inl e \<Rightarrow> (ProcessingFailed, s2\<lparr>sent := sent s2 @ mails\<rparr>)
              | Inr alerts \<Rightarrow> (Received, s2\<lparr>sent := sent s2 @ mails @ alerts\<rparr>)))"

text \<open>
  \<^verbatim>\<open>POST /api/stripe-webhook\<close>. The event is absent when the signature check throws.
  \<^verbatim>\<open>existingOrder?.status !== 'pending'\<close> also holds when no single order has the id.
\<close>

definition stripe_webhook :: "config \<Rightarrow> timestamp \<Rightarrow> stripe_event option \<Rightarrow> state \<Rightarrow> webhook_response \<times> state" where
  "stripe_webhook cfg now verified s =
     (case verified of
        None \<Rightarrow> (SignatureError, s)
      | Some event \<Rightarrow>
          if event_type event \<noteq> ''checkout.session.completed'' then (Received, s)
          else
            (case metadata_orderId (session event) of
               None \<Rightarrow> (Received, s)
             | Some orderId \<Rightarrow>
                 if orderId = [] then (Received, s)
                 else if map_option status (find_order orderId s) \<noteq> Some ''pending''
                   then (Received, s)
                 else confirm_payment cfg now (session event) orderId s))"

section \<open>Order creation\<close>

subsection \<open>Order numbers\<close>

text \<open>
  Decimal text of a count (\<^verbatim>\<open>today_count::TEXT\<close>, \<^verbatim>\<open>toString()\<close>). A digit is
  always below 10 where it is looked up.
\<close>

definition digit_char :: "nat \<Rightarrow> char" where
  "digit_char d = ''0123456789'' ! d"

fun show_nat :: "nat \<Rightarrow> string" where
  "show_nat n = (if n < 10 then [digit_char n] else show_nat (n div 10) @ [digit_char (n mod 10)])"

declare show_nat.simps [simp del]

text \<open>
  Postgres \<^verbatim>\<open>LPAD(string, length, fill)\<close> pads on the left and, when the string is
  already longer, truncates it on the right. JavaScript's \<^verbatim>\<open>padStart\<close> only pads.
\<close>

definition LPAD :: "string \<Rightarrow> nat \<Rightarrow> char \<Rightarrow> string" where
  "LPAD str len fill =
     (if length str \<ge> len then take len str else replicate (len - length str) fill @ str)"

definition padStart :: "string \<Rightarrow> nat \<Rightarrow> char \<Rightarrow> string" where
  "padStart str len fill = replicate (len - length str) fill @ str"

text \<open>
  \<^verbatim>\<open>order_number LIKE 'HS-' || today_date || '-%'\<close>. The date is the text of
  \<^verbatim>\<open>TO_CHAR(..., 'YYYYMMDD')\<close>, digits only, so the pattern's one wildcard is the final
  \<^verbatim>\<open>%\<close> and the match is a prefix test.
\<close>

definition like_today :: "string \<Rightarrow> string \<Rightarrow> bool" where
  "like_today today_date num =
     (take (length (''HS-'' @ today_date @ ''-'')) num = ''HS-'' @ today_date @ ''-'')"

text \<open>
  The stored function \<^verbatim>\<open>generate_order_number()\<close>, given today's date in Sydney as
  \<^verbatim>\<open>TO_CHAR\<close> prints it: one more than the number of rows the \<^verbatim>\<open>LIKE\<close> selects.
\<close>

definition day_numbers :: "string \<Rightarrow> state \<Rightarrow> string list" where
  "day_numbers today_date s = filter (like_today today_date) (map order_number (orders s))"

definition generate_order_number :: "string \<Rightarrow> state \<Rightarrow> string" where
  "generate_order_number today_date s =
     (let today_count = length (day_numbers today_date s) + 1
      in ''HS-'' @ today_date @ ''-'' @ LPAD (show_nat today_count) 3 (CHR ''0''))"

text \<open>
  What a request reads from outside the database: the clock, the two calendar dates (in
  Sydney for the stored function, in UTC for the JavaScript fallback), whether the remote
  call of the stored function reports an error, the value of
  \<^verbatim>\<open>Math.floor(Math.random() * 1000)\<close>, and the fresh keys of \<^verbatim>\<open>gen_random_uuid()\<close>.
\<close>

record environment =
  clock :: timestamp
  sydney_date :: string
  utc_date :: string
  rpc_error :: bool
  random_below_1000 :: nat
  fresh_customer_id :: uuid
  fresh_order_id :: uuid

text \<open>\<^verbatim>\<open>generateOrderNumber()\<close> of the server.\<close>

definition generateOrderNumber :: "environment \<Rightarrow> state \<Rightarrow> string" where
  "generateOrderNumber env s =
     (if rpc_error env
      then ''HS-'' @ utc_date env @ ''-'' @ padStart (show_nat (random_below_1000 env)) 3 (CHR ''0'')
      else generate_order_number (sydney_date env) s)"

subsection \<open>The order-creation handler\<close>

text \<open>
  The body of \<^verbatim>\<open>POST /api/orders\<close>. Only the presence of the address object matters
  to the handler.
\<close>

record address =
  line1 :: "string option"
  city :: "string option"
  postcode :: "string option"

record order_request =
  customerName :: "string option"
  customerPhone :: "string option"
  customerEmail :: "string option"
  shippingType :: "string option"
  shippingAddress :: "address option"
  productType :: "string option"
  req_quantity :: "int option"
  promoCode :: "string option"

record order_response =
  resp_orderId :: uuid
  resp_orderNumber :: string
  resp_subtotal :: int
  resp_shippingCost :: int
  resp_discountAmount :: int
  resp_total :: int

datatype order_result =
    MissingRequiredFields
  | ShippingAddressRequired
  | FailedToCreateOrder
  | Created order_response

text \<open>
  \<^verbatim>\<open>!customerName || !customerPhone || !productType || !quantity\<close>: the four values when
  all are truthy.
\<close>

definition required_fields :: "order_request \<Rightarrow> (string \<times> string \<times> string \<times> int) option" where
  "required_fields req =
     (case customerName req of
        None \<Rightarrow> None
      | Some nm \<Rightarrow>
          (case customerPhone req of
             None \<Rightarrow> None
           | Some ph \<Rightarrow>
               (case productType req of
                  None \<Rightarrow> None
                | Some pt \<Rightarrow>
                    (case req_quantity req of
                       None \<Rightarrow> None
                     | Some q \<Rightarrow>
                         if nm = [] \<or> ph = [] \<or> pt = [] \<or> q = 0 then None
                         else Some (nm, ph, pt, q)))))"

text \<open>\<^verbatim>\<open>shippingType === 'pickup' ? 0 : PRICING.shipping\<close>\<close>

definition shippingCost :: "string option \<Rightarrow> int" where
  "shippingCost mode = (if mode = Some ''pickup'' then 0 else shipping)"

text \<open>
  The promo lookup of order creation and the discount it applies: the active row with the
  upper-cased code, and nothing else is tested.
\<close>

definition order_promo :: "string option \<Rightarrow> state \<Rightarrow> promo_code option" where
  "order_promo pc s =
     (case pc of None \<Rightarrow> None | Some c \<Rightarrow> if c = [] then None else find_active_promo c s)"

definition discountAmount :: "promo_code option \<Rightarrow> int \<Rightarrow> int" where
  "discountAmount promo sub = (case promo of None \<Rightarrow> 0 | Some p \<Rightarrow> promo_discount p sub)"

text \<open>
  Find or create the customer by phone: an existing row gets the new name and, when the
  request has one, the new email (an absent email is left out of the update, and the
  stored one stays); a new row starts with zero statistics.
\<close>

definition resolve_customer :: "environment \<Rightarrow> string \<Rightarrow> string \<Rightarrow> string option \<Rightarrow> state \<Rightarrow> uuid \<times> state" where
  "resolve_customer env nm ph mail s =
     (case single (filter (\<lambda>c. cust_phone c = ph) (customers s)) of
        Some existingCustomer \<Rightarrow>
          (cust_id existingCustomer,
           s\<lparr>customers := map (\<lambda>c. if cust_id c = cust_id existingCustomer
                                     then c\<lparr>cust_name := nm,
                                            cust_email := (case mail of
                                                             None \<Rightarrow> cust_email c
                                                           | Some m \<Rightarrow> Some m),
                                            cust_updated_at := clock env\<rparr>
                                     else c) (customers s)\<rparr>)
      | None \<Rightarrow>
          (fresh_customer_id env,
           s\<lparr>customers := customers s @
               [\<lparr>cust_id = fresh_customer_id env, cust_phone = ph, cust_name = nm,
                 cust_email = mail, order_count = 0, total_spent = 0,
                 cust_updated_at = clock env\<rparr>]\<rparr>))"

text \<open>
  The row the handler inserts. An absent \<^verbatim>\<open>shippingType\<close> leaves the column to its
  default, \<^verbatim>\<open>'delivery'\<close>.
\<close>

definition new_order :: "environment \<Rightarrow> order_request \<Rightarrow> string \<Rightarrow> string \<Rightarrow> string \<Rightarrow> int \<Rightarrow> string \<Rightarrow> uuid \<Rightarrow> promo_code option \<Rightarrow> int \<Rightarrow> order" where
  "new_order env req nm ph pt q num cid promo sub =
     \<lparr>order_id = fresh_order_id env,
      order_number = num,
      customer_id = Some cid,
      customer_name = nm,
      customer_phone = ph,
      customer_email = customerEmail req,
      shipping_type = (case shippingType req of None \<Rightarrow> ''delivery'' | Some m \<Rightarrow> m),
      product_type = pt,
      quantity = q,
      subtotal = sub,
      shipping_cost = shippingCost (shippingType req),
      discount_amount = discountAmount promo sub,
      promo_code_id = map_option promo_id promo,
      promo_code_used = map_option code promo,
      total = sub + shippingCost (shippingType req) - discountAmount promo sub,
      admin_notes = None,
      status = ''pending'',
      stripe_payment_intent_id = None,
      stripe_checkout_session_id = None,
      tracking_number = None,
      carrier = None,
      paid_at = None,
      printed_at = None,
      shipped_at = None,
      completed_at = None,
      updated_at = clock env\<rparr>"

text \<open>The five INTEGER columns of the row fit their type.\<close>

definition row_fits :: "order \<Rightarrow> bool" where
  "row_fits ord =
     (int4_ok (quantity ord) \<and> int4_ok (subtotal ord) \<and> int4_ok (shipping_cost ord)
      \<and> int4_ok (discount_amount ord) \<and> int4_ok (total ord))"

text \<open>
  \<^verbatim>\<open>POST /api/orders\<close>. A TypeError of the price computation ends in the handler's
  \<^verbatim>\<open>catch\<close>, and so does a failed insert: a violation of
  \<^verbatim>\<open>order_number TEXT UNIQUE\<close>, or a value out of the range of its INTEGER column. The
  customer row is already written by then.
\<close>

definition create_order :: "environment \<Rightarrow> order_request \<Rightarrow> state \<Rightarrow> order_result \<times> state" where
  "create_order env req s =
     (case required_fields req of
        None \<Rightarrow> (MissingRequiredFields, s)
      | Some (nm, ph, pt, q) \<Rightarrow>
          if shippingType req = Some ''delivery'' \<and> shippingAddress req = None
          then (ShippingAddressRequired, s)
          else
            (case calculatePrice q pt of
               Inl e \<Rightarrow> (FailedToCreateOrder, s)
             | Inr sub \<Rightarrow>
                 (let promo = order_promo (promoCode req) s;
                      num = generateOrderNumber env s;
                      (cid, s1) = resolve_customer env nm ph (customerEmail req) s;
                      ord = new_order env req nm ph pt q num cid promo sub
                  in if num \<in> set (map order_number (orders s1)) \<or> \<not> row_fits ord
                     then (FailedToCreateOrder, s1)
                     else (Created \<lparr>resp_orderId = order_id ord,
                                    resp_orderNumber = order_number ord,
                                    resp_subtotal = sub,
                                    resp_shippingCost = shippingCost (shippingType req),
                                    resp_discountAmount = discountAmount promo sub,
                                    resp_total = sub + shippingCost (shippingType req)
                                                   - discountAmount promo sub\<rparr>,
                           s1\<lparr>orders := orders s1 @ [ord]\<rparr>))))"





section \<open>A small shop, for worked examples\<close>

definition sample_config :: config where
  "sample_config =
     \<lparr>RESEND_API_KEY = Some ''re_key'', NTFY_TOPIC = Some ''orders'',
      ADMIN_EMAIL = Some ''staff@example.com'', OWNER_EMAILS = [''owner@example.com'']\<rparr>"

definition sample_idp :: identity_provider where
  "sample_idp =
     \<lparr>getUser = (\<lambda>token.
         if token = ''t-owner''
           then Some \<lparr>user_id = ''u-owner'', user_email = Some ''Owner@Example.com''\<rparr>
         else if token = ''t-admin''
           then Some \<lparr>user_id = ''u-admin'', user_email = Some ''admin@example.com''\<rparr>
         else if token = ''t-guest''
           then Some \<lparr>user_id = ''u-guest'', user_email = Some ''guest@example.com''\<rparr>
         else None),
      getUserById = (\<lambda>uid.
         if uid = ''u-owner''
           then Some \<lparr>user_id = ''u-owner'', user_email = Some ''Owner@Example.com''\<rparr>
         else if uid = ''u-admin''
           then Some \<lparr>user_id = ''u-admin'', user_email = Some ''admin@example.com''\<rparr>
         else None)\<rparr>"

definition sample_promos :: "promo_code list" where
  "sample_promos =
     [\<lparr>promo_id = ''p1'', code = ''SAVE10'', discount_type = ''percentage'', discount_value = 10,
       min_order_amount = 5000, max_uses = None, uses_count = 0, max_uses_per_customer = Some 1,
       is_active = True, starts_at = Some 1000, expires_at = Some 2000, description = None\<rparr>,
      \<lparr>promo_id = ''p2'', code = ''FIXED20'', discount_type = ''fixed'', discount_value = 2000,
       min_order_amount = 0, max_uses = None, uses_count = 0, max_uses_per_customer = None,
       is_active = True, starts_at = None, expires_at = None, description = None\<rparr>]"

definition sample_order :: order where
  "sample_order =
     \<lparr>order_id = ''o1'', order_number = ''HS-20240229-001'', customer_id = Some ''c1'',
      customer_name = ''Kim'', customer_phone = ''0400'', customer_email = Some ''kim@example.com'',
      shipping_type = ''pickup'', product_type = ''personal'', quantity = 6, subtotal = 4800,
      shipping_cost = 0, discount_amount = 0, promo_code_id = None, promo_code_used = None,
      total = 4800, admin_notes = None, status = ''pending'', stripe_payment_intent_id = None,
      stripe_checkout_session_id = None, tracking_number = None, carrier = None, paid_at = None,
      printed_at = None, shipped_at = None, completed_at = None, updated_at = 100\<rparr>"

definition sample_state :: state where
  "sample_state =
     \<lparr>orders = [sample_order],
      customers = [\<lparr>cust_id = ''c1'', cust_phone = ''0400'', cust_name = ''Kim'',
                    cust_email = Some ''kim@example.com'', order_count = 0, total_spent = 0,
                    cust_updated_at = 100\<rparr>],
      promo_codes = sample_promos,
      promo_code_usage = [],
      admins = [\<lparr>admin_user_id = ''u-admin'', role = ''admin''\<rparr>],
      admin_logs = [],
      sent = []\<rparr>"

definition sample_event :: stripe_event where
  "sample_event =
     \<lparr>event_type = ''checkout.session.completed'',
      session = \<lparr>session_id = ''cs_1'', payment_intent = Some ''pi_1'',
                 metadata_orderId = Some ''o1'',
                 metadata_orderNumber = Some ''HS-20240229-001''\<rparr>\<rparr>"

definition sample_env :: environment where
  "sample_env =
     \<lparr>clock = 3000, sydney_date = ''20240301'', utc_date = ''20240301'', rpc_error = False,
      random_below_1000 = 7, fresh_customer_id = ''c2'', fresh_order_id = ''o2''\<rparr>"

definition sample_request :: order_request where
  "sample_request =
     \<lparr>customerName = Some ''Kim'', customerPhone = Some ''0400'', customerEmail = None,
      shippingType = Some ''pickup'', shippingAddress = None, productType = Some ''personal'',
      req_quantity = Some 1, promoCode = None\<rparr>"


section \<open>Properties of the pricing engine\<close>

lemma PRICING_product:
  "pt \<notin> set nonProductKeys \<Longrightarrow>
     (case PRICING pt of Undefined \<Rightarrow> PRICING ''personal'' | m \<Rightarrow> m) = Tiers personal"
  by (simp add: PRICING_def nonProductKeys_def personal_def business_def)

lemma calculatePrice_product:
  "pt \<notin> set nonProductKeys \<Longrightarrow>
     calculatePrice q pt =
       Inr (if q \<ge> 12 then q * 700 else if q \<ge> 6 then q * 800 else q * 1000)"
  unfolding calculatePrice_def by (simp add: PRICING_product) (simp add: personal_def)

lemma calculatePrice_non_product:
  "pt \<in> set nonProductKeys \<Longrightarrow> calculatePrice q pt = Inl TypeError"
  by (auto simp add: calculatePrice_def PRICING_def nonProductKeys_def objectPrototypeKeys_def)

lemma calculate_order_price_agrees:
  "0 < q \<Longrightarrow> q \<le> 3067833 \<Longrightarrow> pt \<notin> set nonProductKeys \<Longrightarrow>
     calculatePrice q pt = Inr p \<longleftrightarrow> calculate_order_price q = Inr p"
  by (auto simp add: calculatePrice_product calculate_order_price_def int4_def int4_ok_def)

text \<open>
  Claim C7. For every positive integer quantity \<open>q\<close> and every product type (\<open>personal\<close>,
  \<open>business\<close>, and any unrecognised name, which is priced as \<open>personal\<close>), the price is
  \<open>q * 1000\<close> for \<open>1 \<le> q \<le> 5\<close>, \<open>q * 800\<close> for \<open>6 \<le> q \<le> 11\<close> and \<open>q * 700\<close> for \<open>q \<ge> 12\<close>:
  the unit price of the tier applies to every unit. In particular the prices of 12, 11, 6,
  5 and 1 units are 8400, 8800, 4800, 5000 and 1000.
\<close>

theorem C7_tier_pricing:
  assumes "0 < q" and "pt \<notin> set nonProductKeys"
  shows "(1 \<le> q \<and> q \<le> 5 \<longrightarrow> calculatePrice q pt = Inr (q * 1000))
       \<and> (6 \<le> q \<and> q \<le> 11 \<longrightarrow> calculatePrice q pt = Inr (q * 800))
       \<and> (12 \<le> q \<longrightarrow> calculatePrice q pt = Inr (q * 700))
       \<and> calculatePrice 12 pt = Inr 8400
       \<and> calculatePrice 11 pt = Inr 8800
       \<and> calculatePrice 6 pt = Inr 4800
       \<and> calculatePrice 5 pt = Inr 5000
       \<and> calculatePrice 1 pt = Inr 1000"
  using assms by (simp add: calculatePrice_product)

text \<open>Seven business magnets cost 7 times 800.\<close>

theorem C7_tier_pricing_witness:
  "calculatePrice 7 ''business'' = Inr 5600 \<and> calculatePrice 12 ''business'' = Inr 8400
   \<and> calculatePrice 1 ''business'' = Inr 1000"
  using C7_tier_pricing [of 7 "''business''"]
  by (simp add: nonProductKeys_def objectPrototypeKeys_def)

section \<open>Properties of the promo validator\<close>

lemma to_double_zero: "to_double 0 b = (0, 0)"
  by (simp add: to_double_def)

lemma percentage_discount_zero: "percentage_discount 0 percent = 0"
  by (simp add: percentage_discount_def mul_double_def floor_double_def to_double_zero Let_def)

lemma percentage_discount_example: "percentage_discount 8400 10 = 840"
  by code_simp

lemma percentage_discount_rounds: "percentage_discount 3000 29 = 869"
  by code_simp

lemma validate_promo_found:
  "req_code req = Some c \<Longrightarrow> c \<noteq> [] \<Longrightarrow> find_active_promo c s = Some promo \<Longrightarrow>
     validate_promo now req s =
       (case first_failing (checks_in_order now req s promo) of
          Some r \<Rightarrow> Inl r
        | None \<Rightarrow> Inr (quote promo (req_subtotal req)))"
  by (simp add: validate_promo_def first_failing_def checks_in_order_def)

lemma validate_promo_not_found:
  "req_code req = Some c \<Longrightarrow> c \<noteq> [] \<Longrightarrow> find_active_promo c s = None \<Longrightarrow>
     validate_promo now req s = Inl InvalidPromoCode"
  by (simp add: validate_promo_def)

text \<open>
  Claim C6. Promo validation checks the rejection reasons in a fixed order and the first
  failing check wins: not found or inactive, then expired, then not yet active, then the
  global usage limit, then below the minimum order, then the per-customer limit. In
  particular a code that is both expired and below the minimum order is rejected with the
  expiry reason.
\<close>

theorem C6_first_failing_check_wins:
  assumes "req_code req = Some c" and "c \<noteq> []"
  shows "(find_active_promo c s = None \<longrightarrow> validate_promo now req s = Inl InvalidPromoCode)
       \<and> (\<forall>promo. find_active_promo c s = Some promo \<longrightarrow>
             validate_promo now req s =
               (case first_failing (checks_in_order now req s promo) of
                  Some r \<Rightarrow> Inl r
                | None \<Rightarrow> Inr (quote promo (req_subtotal req))))
       \<and> (\<forall>promo. find_active_promo c s = Some promo \<and> expired promo now
                    \<and> below_minimum promo (req_subtotal req) \<longrightarrow>
             validate_promo now req s = Inl PromoExpired)"
  using assms
  by (simp add: validate_promo_found validate_promo_not_found)
     (simp add: first_failing_def checks_in_order_def)


lemma single_filter_map:
  "single (filter P (map g xs)) = map_option g (single (filter (\<lambda>x. P (g x)) xs))"
  by (simp add: single_def filter_map comp_def split: list.splits)

lemma find_active_promo_min:
  "find_active_promo c (s\<lparr>promo_codes := map (\<lambda>p. p\<lparr>min_order_amount := f p\<rparr>) (promo_codes s)\<rparr>)
     = map_option (\<lambda>p. p\<lparr>min_order_amount := f p\<rparr>) (find_active_promo c s)"
  by (simp add: find_active_promo_def single_filter_map)

lemma checks_ignore_min:
  "expired (p\<lparr>min_order_amount := x\<rparr>) now = expired p now"
  "not_yet_active (p\<lparr>min_order_amount := x\<rparr>) now = not_yet_active p now"
  "limit_reached (p\<lparr>min_order_amount := x\<rparr>) = limit_reached p"
  "customer_limit_reached (p\<lparr>min_order_amount := x\<rparr>) cust
     (s\<lparr>promo_codes := ps\<rparr>) = customer_limit_reached p cust s"
  "quote (p\<lparr>min_order_amount := x\<rparr>) sub = quote p sub"
  by (simp_all add: expired_def not_yet_active_def limit_reached_def customer_limit_reached_def
        customer_usage_count_def quote_def promo_discount_def split: option.splits)

lemma below_minimum_falsy:
  "sub = None \<or> sub = Some 0 \<Longrightarrow> \<not> below_minimum p sub"
  by (auto simp add: below_minimum_def)

lemma validate_promo_min_irrelevant:
  assumes "req_subtotal req = None \<or> req_subtotal req = Some 0"
  shows "validate_promo now req (s\<lparr>promo_codes := map (\<lambda>p. p\<lparr>min_order_amount := f p\<rparr>) (promo_codes s)\<rparr>)
           = validate_promo now req s"
proof (cases "req_code req")
  case None
  then show ?thesis by (simp add: validate_promo_def)
next
  case (Some c)
  show ?thesis
  proof (cases "find_active_promo c s")
    case None
    with Some show ?thesis by (simp add: validate_promo_def find_active_promo_min)
  next
    case (Some promo)
    with \<open>req_code req = Some c\<close> below_minimum_falsy [OF assms] show ?thesis
      by (simp add: validate_promo_def find_active_promo_min checks_ignore_min)
  qed
qed

text \<open>
  Claim C10. In the promo-validation endpoint the minimum-order check is conditioned on
  the request's subtotal being truthy. For every call where the subtotal is absent or zero
  the check is skipped entirely: the answer is never the minimum-order rejection, it does
  not depend on any code's \<open>min_order_amount\<close>, a code that passes the other checks is
  valid, and a percentage discount is computed over a subtotal of 0 and is 0.
\<close>

theorem C10_minimum_skipped_without_subtotal:
  assumes "req_subtotal req = None \<or> req_subtotal req = Some 0"
  shows "(\<forall>m. validate_promo now req s \<noteq> Inl (MinimumOrderRequired m))
       \<and> (\<forall>f. validate_promo now req
                 (s\<lparr>promo_codes := map (\<lambda>p. p\<lparr>min_order_amount := f p\<rparr>) (promo_codes s)\<rparr>)
               = validate_promo now req s)
       \<and> (\<forall>c promo. req_code req = Some c \<and> c \<noteq> [] \<and> find_active_promo c s = Some promo
              \<and> \<not> expired promo now \<and> \<not> not_yet_active promo now \<and> \<not> limit_reached promo
              \<and> \<not> customer_limit_reached promo (req_customerId req) s \<longrightarrow>
              validate_promo now req s = Inr (quote promo (req_subtotal req))
              \<and> (discount_type promo = ''percentage'' \<longrightarrow>
                    calculatedDiscount (quote promo (req_subtotal req)) = 0))"
proof (intro conjI allI impI)
  fix m
  show "validate_promo now req s \<noteq> Inl (MinimumOrderRequired m)"
    using assms by (auto simp add: validate_promo_def below_minimum_def split: option.splits)
next
  fix f
  show "validate_promo now req
          (s\<lparr>promo_codes := map (\<lambda>p. p\<lparr>min_order_amount := f p\<rparr>) (promo_codes s)\<rparr>)
        = validate_promo now req s"
    using assms by (rule validate_promo_min_irrelevant)
next
  fix c promo
  assume h: "req_code req = Some c \<and> c \<noteq> [] \<and> find_active_promo c s = Some promo
              \<and> \<not> expired promo now \<and> \<not> not_yet_active promo now \<and> \<not> limit_reached promo
              \<and> \<not> customer_limit_reached promo (req_customerId req) s"
  have nb: "\<not> below_minimum promo (req_subtotal req)"
    using assms by (auto simp add: below_minimum_def)
  show "validate_promo now req s = Inr (quote promo (req_subtotal req))"
    using h nb by (simp add: validate_promo_def)
  assume "discount_type promo = ''percentage''"
  then show "calculatedDiscount (quote promo (req_subtotal req)) = 0"
    using assms by (auto simp add: quote_def promo_discount_def percentage_discount_zero)
qed

section \<open>Properties of admin authorization\<close>

lemma userLevel_spec:
  "userLevel r = (if r \<in> set objectPrototypeKeys then Member (inherited_text r)
                   else Level (spec_level r))"
  by (auto simp add: userLevel_def roleHierarchy_def spec_level_def objectPrototypeKeys_def)

lemma requiredLevel_spec:
  "rr \<notin> set objectPrototypeKeys \<Longrightarrow>
     requiredLevel rr = Level (if spec_level rr = 0 then 2 else spec_level rr)"
  by (simp add: requiredLevel_def roleHierarchy_def spec_level_def)

lemma spec_level_inherited:
  "r \<in> set objectPrototypeKeys \<Longrightarrow> spec_level r = 0"
  by (auto simp add: spec_level_def objectPrototypeKeys_def)

lemma spec_required_level_pos: "2 \<le> spec_required_level required \<or> spec_required_level required = 1"
  by (simp add: spec_required_level_def spec_level_def split: option.splits)

lemma level_ge_spec:
  assumes "\<forall>rr. required = Some rr \<longrightarrow> rr \<notin> set objectPrototypeKeys"
  shows "level_ge (userLevel r) (requiredLevel (case required of None \<Rightarrow> ''admin'' | Some rr \<Rightarrow> rr))
           \<longleftrightarrow> spec_level r \<ge> spec_required_level required"
proof (cases required)
  case None
  have "requiredLevel ''admin'' = Level 2"
    by (simp add: requiredLevel_def roleHierarchy_def)
  with None show ?thesis
    using spec_level_inherited [of r]
    by (simp add: userLevel_spec spec_required_level_def)
next
  case (Some rr)
  with assms have "rr \<notin> set objectPrototypeKeys" by simp
  then have "requiredLevel rr = Level (spec_required_level required)"
    using Some by (simp add: requiredLevel_spec spec_required_level_def)
  with Some show ?thesis
    using spec_level_inherited [of r] spec_required_level_pos [of required]
    by (auto simp add: userLevel_spec)
qed

lemma verifyAdmin_owner:
  "bearer_token authHeader = Some token \<Longrightarrow> getUser idp token = Some user \<Longrightarrow>
   is_owner cfg (user_email user) \<Longrightarrow>
     verifyAdmin cfg idp s authHeader required =
       Some \<lparr>userId = user_id user, email = user_email user, principal_role = ''owner''\<rparr>"
  by (simp add: verifyAdmin_def)

lemma verifyAdmin_no_row:
  "bearer_token authHeader = Some token \<Longrightarrow> getUser idp token = Some user \<Longrightarrow>
   \<not> is_owner cfg (user_email user) \<Longrightarrow>
   single (filter (\<lambda>a. admin_user_id a = user_id user) (admins s)) = None \<Longrightarrow>
     verifyAdmin cfg idp s authHeader required = None"
  by (simp add: verifyAdmin_def)

lemma verifyAdmin_row:
  "bearer_token authHeader = Some token \<Longrightarrow> getUser idp token = Some user \<Longrightarrow>
   \<not> is_owner cfg (user_email user) \<Longrightarrow>
   single (filter (\<lambda>a. admin_user_id a = user_id user) (admins s)) = Some adm \<Longrightarrow>
     verifyAdmin cfg idp s authHeader required =
       (if level_ge (userLevel (role adm))
             (requiredLevel (case required of None \<Rightarrow> ''admin'' | Some rr \<Rightarrow> rr))
        then Some \<lparr>userId = user_id user, email = user_email user, principal_role = role adm\<rparr>
        else None)"
  by (simp add: verifyAdmin_def)

lemma remove_admin_owner_target:
  "getUserById idp target = Some tu \<Longrightarrow> is_owner cfg (user_email tu) \<Longrightarrow>
     remove_admin cfg idp authHeader target s =
       (if verifyAdmin cfg idp s authHeader (Some ''super_admin'') = None then Forbidden
        else CannotRemoveOwner, s)"
  by (simp add: remove_admin_def split: option.splits)

text \<open>
  Claim C5. Authorization. A principal whose verified email is in the static owner
  allowlist is always granted as \<open>owner\<close>, whatever the admin table holds; a principal with
  no allowlist entry and no row in the admin table is denied; any other principal is
  granted iff the numeric level of its role (owner 4, super_admin 3, admin 2,
  moderator 1) is at least the level of the required role, which is admin (2) when none
  is specified; and an allowlisted owner is rejected as the target of the remove-admin
  operation, which then changes nothing.
\<close>

theorem C5_authorization:
  assumes "bearer_token authHeader = Some token" and "getUser idp token = Some user"
  shows "(is_owner cfg (user_email user) \<longrightarrow>
            verifyAdmin cfg idp s authHeader required =
              Some \<lparr>userId = user_id user, email = user_email user, principal_role = ''owner''\<rparr>
            \<and> spec_level ''owner'' \<ge> spec_required_level required)
       \<and> (\<not> is_owner cfg (user_email user)
            \<and> single (filter (\<lambda>a. admin_user_id a = user_id user) (admins s)) = None \<longrightarrow>
            verifyAdmin cfg idp s authHeader required = None)
       \<and> (\<forall>adm. \<not> is_owner cfg (user_email user)
            \<and> single (filter (\<lambda>a. admin_user_id a = user_id user) (admins s)) = Some adm
            \<and> (\<forall>rr. required = Some rr \<longrightarrow> rr \<notin> set objectPrototypeKeys) \<longrightarrow>
            (verifyAdmin cfg idp s authHeader required \<noteq> None
               \<longleftrightarrow> spec_level (role adm) \<ge> spec_required_level required)
            \<and> (spec_level (role adm) \<ge> spec_required_level required \<longrightarrow>
                  verifyAdmin cfg idp s authHeader required =
                    Some \<lparr>userId = user_id user, email = user_email user,
                          principal_role = role adm\<rparr>))
       \<and> (\<forall>target tu. getUserById idp target = Some tu \<and> is_owner cfg (user_email tu) \<longrightarrow>
            snd (remove_admin cfg idp authHeader target s) = s
            \<and> fst (remove_admin cfg idp authHeader target s) =
                (if verifyAdmin cfg idp s authHeader (Some ''super_admin'') = None then Forbidden
                 else CannotRemoveOwner))"
proof (intro conjI allI impI)
  assume "is_owner cfg (user_email user)"
  with assms show "verifyAdmin cfg idp s authHeader required =
      Some \<lparr>userId = user_id user, email = user_email user, principal_role = ''owner''\<rparr>"
    by (rule verifyAdmin_owner)
next
  show "spec_level ''owner'' \<ge> spec_required_level required"
    by (simp add: spec_required_level_def spec_level_def split: option.splits)
next
  assume "\<not> is_owner cfg (user_email user)
            \<and> single (filter (\<lambda>a. admin_user_id a = user_id user) (admins s)) = None"
  with assms show "verifyAdmin cfg idp s authHeader required = None"
    by (simp add: verifyAdmin_no_row)
next
  fix adm
  assume h: "\<not> is_owner cfg (user_email user)
            \<and> single (filter (\<lambda>a. admin_user_id a = user_id user) (admins s)) = Some adm
            \<and> (\<forall>rr. required = Some rr \<longrightarrow> rr \<notin> set objectPrototypeKeys)"
  then have lv: "level_ge (userLevel (role adm))
             (requiredLevel (case required of None \<Rightarrow> ''admin'' | Some rr \<Rightarrow> rr))
           \<longleftrightarrow> spec_level (role adm) \<ge> spec_required_level required"
    using level_ge_spec [of required "role adm"] by blast
  from h assms have va: "verifyAdmin cfg idp s authHeader required =
       (if level_ge (userLevel (role adm))
             (requiredLevel (case required of None \<Rightarrow> ''admin'' | Some rr \<Rightarrow> rr))
        then Some \<lparr>userId = user_id user, email = user_email user, principal_role = role adm\<rparr>
        else None)"
    by (simp add: verifyAdmin_row)
  show "(verifyAdmin cfg idp s authHeader required \<noteq> None)
          = (spec_level (role adm) \<ge> spec_required_level required)"
    using va lv by simp
  assume "spec_level (role adm) \<ge> spec_required_level required"
  then show "verifyAdmin cfg idp s authHeader required =
                    Some \<lparr>userId = user_id user, email = user_email user,
                          principal_role = role adm\<rparr>"
    using va lv by simp
next
  fix target tu
  assume h: "getUserById idp target = Some tu \<and> is_owner cfg (user_email tu)"
  then show "snd (remove_admin cfg idp authHeader target s) = s"
    by (simp add: remove_admin_owner_target)
  from h show "fst (remove_admin cfg idp authHeader target s) =
                (if verifyAdmin cfg idp s authHeader (Some ''super_admin'') = None then Forbidden
                 else CannotRemoveOwner)"
    by (simp add: remove_admin_owner_target)
qed

section \<open>Properties of the order lifecycle\<close>

lemma single_map: "single (map f xs) = map_option f (single xs)"
  by (simp add: single_def split: list.splits)

lemma filter_marked:
  "filter (\<lambda>ord. order_id ord = oid)
     (map (\<lambda>ord. if order_id ord = oid then mark_paid now sess ord else ord) xs)
   = map (mark_paid now sess) (filter (\<lambda>ord. order_id ord = oid) xs)"
  by (induction xs) (simp_all add: mark_paid_def)

lemma find_order_marked:
  "find_order oid (s\<lparr>orders := map (\<lambda>ord. if order_id ord = oid then mark_paid now sess ord
                                          else ord) (orders s)\<rparr>)
   = map_option (mark_paid now sess) (find_order oid s)"
  by (simp add: find_order_def filter_marked single_map)

lemma send_confirmation_ok:
  "\<exists>mails. sendOrderConfirmationEmail cfg (Some ord) = Inr mails"
  by (simp add: sendOrderConfirmationEmail_def split: option.splits)

lemma send_alert_ok:
  "\<exists>alerts. sendAdminNotification cfg (Some ord) = Inr alerts"
  by (simp add: sendAdminNotification_def)

lemma stats_fit_orders: "stats_fit cid amount (s\<lparr>orders := xs\<rparr>) = stats_fit cid amount s"
  by (simp add: stats_fit_def)

lemma update_customer_stats_fields:
  "orders (update_customer_stats ord now s) = orders s"
  "sent (update_customer_stats ord now s) = sent s"
  by (simp_all add: update_customer_stats_def increment_customer_stats_def split: option.splits)

lemma update_customer_stats_marked:
  "customers (update_customer_stats (Some (mark_paid now sess ord)) now (s\<lparr>orders := xs\<rparr>))
     = customers (update_customer_stats (Some ord) now s)"
  by (simp add: update_customer_stats_def increment_customer_stats_def mark_paid_def
        stats_fit_orders split: option.splits)

lemma update_customer_stats_counts:
  assumes "customer_id ord = Some cid" and "cid \<noteq> []" and "stats_fit cid (total ord) s"
  shows "map order_count (customers (update_customer_stats (Some ord) now s))
           = map (\<lambda>c. if cust_id c = cid then order_count c + 1 else order_count c) (customers s)"
    and "map total_spent (customers (update_customer_stats (Some ord) now s))
           = map (\<lambda>c. if cust_id c = cid then total_spent c + total ord else total_spent c)
               (customers s)"
  using assms by (simp_all add: update_customer_stats_def increment_customer_stats_def)

lemma notifications_marked:
  "sendOrderConfirmationEmail cfg (Some (mark_paid now sess ord))
     = sendOrderConfirmationEmail cfg (Some ord)"
  "sendAdminNotification cfg (Some (mark_paid now sess ord)) = sendAdminNotification cfg (Some ord)"
  by (simp_all add: sendOrderConfirmationEmail_def sendAdminNotification_def mark_paid_def
        split: option.splits)

lemma notifications_count:
  "sendOrderConfirmationEmail cfg (Some ord) = Inr mails \<Longrightarrow>
     length mails = (if truthy_str (RESEND_API_KEY cfg) \<and> truthy_str (customer_email ord)
                     then 1 else 0)"
  "sendAdminNotification cfg (Some ord) = Inr alerts \<Longrightarrow>
     length alerts = (if truthy_str (NTFY_TOPIC cfg) then 1 else 0)
                   + (if truthy_str (RESEND_API_KEY cfg) \<and> truthy_str (ADMIN_EMAIL cfg)
                      then 1 else 0)"
  by (auto simp add: sendOrderConfirmationEmail_def sendAdminNotification_def truthy_str_def
        split: option.splits if_splits)

lemma notifications_content:
  "sendOrderConfirmationEmail cfg (Some ord) = Inr mails \<Longrightarrow>
     \<forall>m. truthy_str (RESEND_API_KEY cfg) \<and> customer_email ord = Some m \<and> m \<noteq> [] \<longrightarrow>
           mails = [CustomerConfirmation (order_number ord) m]"
  "sendAdminNotification cfg (Some ord) = Inr alerts \<Longrightarrow>
     alerts = (if truthy_str (NTFY_TOPIC cfg) then [StaffPush (order_number ord)] else [])
            @ (if truthy_str (RESEND_API_KEY cfg) \<and> truthy_str (ADMIN_EMAIL cfg)
               then [StaffEmail (order_number ord)] else [])"
  by (auto simp add: sendOrderConfirmationEmail_def sendAdminNotification_def)

lemma confirm_payment_found:
  assumes "find_order oid s = Some ord"
    and "sendOrderConfirmationEmail cfg (Some (mark_paid now sess ord)) = Inr mails"
    and "sendAdminNotification cfg (Some (mark_paid now sess ord)) = Inr alerts"
  shows "confirm_payment cfg now sess oid s =
           (Received,
            (update_customer_stats (Some (mark_paid now sess ord)) now
               (s\<lparr>orders := map (\<lambda>ord. if order_id ord = oid then mark_paid now sess ord
                                         else ord) (orders s)\<rparr>))
              \<lparr>sent := sent s @ mails @ alerts\<rparr>)"
  using assms
  by (simp add: confirm_payment_def find_order_marked Let_def update_customer_stats_fields)

lemma webhook_not_pending:
  "map_option status (find_order oid s) \<noteq> Some ''pending'' \<Longrightarrow>
   metadata_orderId (session ev) = Some oid \<Longrightarrow>
     stripe_webhook cfg now (Some ev) s = (Received, s)"
  by (simp add: stripe_webhook_def)

lemma webhook_pending:
  assumes "event_type ev = ''checkout.session.completed''"
    and "metadata_orderId (session ev) = Some oid" and "oid \<noteq> []"
    and "find_order oid s = Some ord" and "status ord = ''pending''"
  shows "stripe_webhook cfg now (Some ev) s = confirm_payment cfg now (session ev) oid s"
  using assms by (simp add: stripe_webhook_def)

lemma webhook_first_delivery:
  assumes "event_type ev = ''checkout.session.completed''"
    and "metadata_orderId (session ev) = Some oid" and "oid \<noteq> []"
    and "find_order oid s = Some ord" and "status ord = ''pending''"
  shows "\<exists>mails alerts.
           sendOrderConfirmationEmail cfg (Some (mark_paid now (session ev) ord)) = Inr mails
         \<and> sendAdminNotification cfg (Some (mark_paid now (session ev) ord)) = Inr alerts
         \<and> stripe_webhook cfg now (Some ev) s =
           (Received,
            (update_customer_stats (Some (mark_paid now (session ev) ord)) now
               (s\<lparr>orders := map (\<lambda>ord. if order_id ord = oid then mark_paid now (session ev) ord
                                         else ord) (orders s)\<rparr>))
              \<lparr>sent := sent s @ mails @ alerts\<rparr>)"
proof -
  obtain mails where m: "sendOrderConfirmationEmail cfg (Some (mark_paid now (session ev) ord)) = Inr mails"
    using send_confirmation_ok by blast
  obtain alerts where a: "sendAdminNotification cfg (Some (mark_paid now (session ev) ord)) = Inr alerts"
    using send_alert_ok by blast
  show ?thesis
    using m a webhook_pending [OF assms] confirm_payment_found [OF assms(4) m a] by simp
qed

lemma webhook_after_first:
  assumes "event_type ev = ''checkout.session.completed''"
    and "metadata_orderId (session ev) = Some oid" and "oid \<noteq> []"
    and "find_order oid s = Some ord" and "status ord = ''pending''"
  shows "find_order oid (snd (stripe_webhook cfg now (Some ev) s))
           = Some (mark_paid now (session ev) ord)"
proof -
  obtain mails alerts where
    "stripe_webhook cfg now (Some ev) s =
           (Received,
            (update_customer_stats (Some (mark_paid now (session ev) ord)) now
               (s\<lparr>orders := map (\<lambda>ord. if order_id ord = oid then mark_paid now (session ev) ord
                                         else ord) (orders s)\<rparr>))
              \<lparr>sent := sent s @ mails @ alerts\<rparr>)"
    using webhook_first_delivery [OF assms] by blast
  then have "find_order oid (snd (stripe_webhook cfg now (Some ev) s))
      = find_order oid (s\<lparr>orders := map (\<lambda>ord. if order_id ord = oid then mark_paid now (session ev) ord
                                         else ord) (orders s)\<rparr>)"
    by (simp add: find_order_def update_customer_stats_fields)
  then show ?thesis using assms(4) by (simp add: find_order_marked)
qed

lemma webhook_twice:
  "snd (stripe_webhook cfg now2 (Some ev) (snd (stripe_webhook cfg now1 (Some ev) s)))
     = snd (stripe_webhook cfg now1 (Some ev) s)"
proof (cases "event_type ev = ''checkout.session.completed''")
  case False
  then show ?thesis by (simp add: stripe_webhook_def)
next
  case completed: True
  show ?thesis
  proof (cases "metadata_orderId (session ev)")
    case None
    then show ?thesis by (simp add: stripe_webhook_def)
  next
    case (Some oid)
    show ?thesis
    proof (cases "oid = []")
      case True
      with Some show ?thesis by (simp add: stripe_webhook_def)
    next
      case ne: False
      show ?thesis
      proof (cases "map_option status (find_order oid s) = Some ''pending''")
        case False
        have "\<And>t u. map_option status (find_order oid u) \<noteq> Some ''pending'' \<Longrightarrow>
                stripe_webhook cfg t (Some ev) u = (Received, u)"
          using Some by (rule webhook_not_pending [rotated])
        with False show ?thesis by simp
      next
        case True
        then obtain ord where o: "find_order oid s = Some ord" "status ord = ''pending''"
          by (cases "find_order oid s") simp_all
        have "find_order oid (snd (stripe_webhook cfg now1 (Some ev) s))
                = Some (mark_paid now1 (session ev) ord)"
          using webhook_after_first [OF completed Some ne o] .
        then have "map_option status (find_order oid (snd (stripe_webhook cfg now1 (Some ev) s)))
                \<noteq> Some ''pending''"
          by (simp add: mark_paid_def)
        then have "stripe_webhook cfg now2 (Some ev) (snd (stripe_webhook cfg now1 (Some ev) s))
                = (Received, snd (stripe_webhook cfg now1 (Some ev) s))"
          using Some by (rule webhook_not_pending)
        then show ?thesis by simp
      qed
    qed
  qed
qed


text \<open>
  Claim C1, as amended. Payment confirmation is idempotent. For every order whose status
  is not \<open>pending\<close> when a payment-confirmation event arrives, processing the event is a
  no-op: the whole state is unchanged. Delivering the same event a second time leaves the
  state as the first delivery left it. For an order that was pending, after the two
  deliveries \<open>paid_at\<close> is the time of the first; the customer's \<open>order_count\<close> and
  \<open>total_spent\<close> are incremented exactly once, provided the sums fit their INTEGER
  columns; and the messages sent are those of one delivery, not one message but one run
  of the two notification routines: a confirmation to the customer iff the email key is
  configured and the order has an email, a push to staff iff the topic is configured, and
  an email to staff iff the email key and the staff address are configured.
\<close>

theorem C1_payment_confirmation_idempotent:
  "(\<forall>oid. metadata_orderId (session ev) = Some oid
           \<and> map_option status (find_order oid s) \<noteq> Some ''pending'' \<longrightarrow>
           stripe_webhook cfg now1 (Some ev) s = (Received, s))
   \<and> snd (stripe_webhook cfg now2 (Some ev) (snd (stripe_webhook cfg now1 (Some ev) s)))
        = snd (stripe_webhook cfg now1 (Some ev) s)
   \<and> (\<forall>oid ord. event_type ev = ''checkout.session.completed''
           \<and> metadata_orderId (session ev) = Some oid \<and> oid \<noteq> []
           \<and> find_order oid s = Some ord \<and> status ord = ''pending'' \<longrightarrow>
         (\<exists>mails alerts.
            sendOrderConfirmationEmail cfg (Some ord) = Inr mails
          \<and> sendAdminNotification cfg (Some ord) = Inr alerts
          \<and> length mails = (if truthy_str (RESEND_API_KEY cfg) \<and> truthy_str (customer_email ord)
                            then 1 else 0)
          \<and> length alerts = (if truthy_str (NTFY_TOPIC cfg) then 1 else 0)
                          + (if truthy_str (RESEND_API_KEY cfg) \<and> truthy_str (ADMIN_EMAIL cfg)
                             then 1 else 0)
          \<and> (\<forall>m. truthy_str (RESEND_API_KEY cfg) \<and> customer_email ord = Some m \<and> m \<noteq> [] \<longrightarrow>
                 mails = [CustomerConfirmation (order_number ord) m])
          \<and> alerts = (if truthy_str (NTFY_TOPIC cfg) then [StaffPush (order_number ord)] else [])
                     @ (if truthy_str (RESEND_API_KEY cfg) \<and> truthy_str (ADMIN_EMAIL cfg)
                        then [StaffEmail (order_number ord)] else [])
          \<and> sent (snd (stripe_webhook cfg now2 (Some ev)
                          (snd (stripe_webhook cfg now1 (Some ev) s))))
               = sent s @ mails @ alerts)
          \<and> (\<forall>cid. customer_id ord = Some cid \<and> cid \<noteq> [] \<and> stats_fit cid (total ord) s \<longrightarrow>
                map order_count (customers (snd (stripe_webhook cfg now2 (Some ev)
                               (snd (stripe_webhook cfg now1 (Some ev) s)))))
                  = map (\<lambda>c. if cust_id c = cid then order_count c + 1 else order_count c)
                      (customers s)
              \<and> map total_spent (customers (snd (stripe_webhook cfg now2 (Some ev)
                               (snd (stripe_webhook cfg now1 (Some ev) s)))))
                  = map (\<lambda>c. if cust_id c = cid then total_spent c + total ord
                              else total_spent c) (customers s))
          \<and> map_option paid_at (find_order oid
                 (snd (stripe_webhook cfg now2 (Some ev)
                         (snd (stripe_webhook cfg now1 (Some ev) s)))))
               = Some (Some now1))"
proof (intro conjI allI impI)
  fix oid
  assume "metadata_orderId (session ev) = Some oid
           \<and> map_option status (find_order oid s) \<noteq> Some ''pending''"
  then have "map_option status (find_order oid s) \<noteq> Some ''pending''"
    and "metadata_orderId (session ev) = Some oid"
    by blast+
  then show "stripe_webhook cfg now1 (Some ev) s = (Received, s)"
    by (rule webhook_not_pending)
next
  show "snd (stripe_webhook cfg now2 (Some ev) (snd (stripe_webhook cfg now1 (Some ev) s)))
        = snd (stripe_webhook cfg now1 (Some ev) s)"
    by (rule webhook_twice)
next
  fix oid ord
  assume h: "event_type ev = ''checkout.session.completed''
           \<and> metadata_orderId (session ev) = Some oid \<and> oid \<noteq> []
           \<and> find_order oid s = Some ord \<and> status ord = ''pending''"
  then have a: "event_type ev = ''checkout.session.completed''"
    and b: "metadata_orderId (session ev) = Some oid" and c: "oid \<noteq> []"
    and d: "find_order oid s = Some ord" and e: "status ord = ''pending''"
    by simp_all
  obtain mails alerts where
    m': "sendOrderConfirmationEmail cfg (Some (mark_paid now1 (session ev) ord)) = Inr mails"
    and al': "sendAdminNotification cfg (Some (mark_paid now1 (session ev) ord)) = Inr alerts"
    and w: "stripe_webhook cfg now1 (Some ev) s =
           (Received,
            (update_customer_stats (Some (mark_paid now1 (session ev) ord)) now1
               (s\<lparr>orders := map (\<lambda>ord. if order_id ord = oid then mark_paid now1 (session ev) ord
                                         else ord) (orders s)\<rparr>))
              \<lparr>sent := sent s @ mails @ alerts\<rparr>)"
    using webhook_first_delivery [OF a b c d e] by blast
  from m' have m: "sendOrderConfirmationEmail cfg (Some ord) = Inr mails"
    by (simp only: notifications_marked)
  from al' have al: "sendAdminNotification cfg (Some ord) = Inr alerts"
    by (simp only: notifications_marked)
  note len = notifications_count(1) [OF m] notifications_count(2) [OF al]
  note cont = notifications_content(1) [OF m] notifications_content(2) [OF al]
  have tw: "snd (stripe_webhook cfg now2 (Some ev) (snd (stripe_webhook cfg now1 (Some ev) s)))
        = snd (stripe_webhook cfg now1 (Some ev) s)"
    by (rule webhook_twice)
  have "snd (stripe_webhook cfg now1 (Some ev) s)
        = (update_customer_stats (Some (mark_paid now1 (session ev) ord)) now1
               (s\<lparr>orders := map (\<lambda>ord. if order_id ord = oid then mark_paid now1 (session ev) ord
                                         else ord) (orders s)\<rparr>))
              \<lparr>sent := sent s @ mails @ alerts\<rparr>"
    by (simp add: w)
  with tw have fin: "snd (stripe_webhook cfg now2 (Some ev) (snd (stripe_webhook cfg now1 (Some ev) s)))
        = (update_customer_stats (Some (mark_paid now1 (session ev) ord)) now1
               (s\<lparr>orders := map (\<lambda>ord. if order_id ord = oid then mark_paid now1 (session ev) ord
                                         else ord) (orders s)\<rparr>))
              \<lparr>sent := sent s @ mails @ alerts\<rparr>"
    by (rule trans)
  have st: "sent (snd (stripe_webhook cfg now2 (Some ev)
                          (snd (stripe_webhook cfg now1 (Some ev) s))))
               = sent s @ mails @ alerts"
    by (simp add: fin)
  from m al len cont st
  show "\<exists>mails alerts.
            sendOrderConfirmationEmail cfg (Some ord) = Inr mails
          \<and> sendAdminNotification cfg (Some ord) = Inr alerts
          \<and> length mails = (if truthy_str (RESEND_API_KEY cfg) \<and> truthy_str (customer_email ord)
                            then 1 else 0)
          \<and> length alerts = (if truthy_str (NTFY_TOPIC cfg) then 1 else 0)
                          + (if truthy_str (RESEND_API_KEY cfg) \<and> truthy_str (ADMIN_EMAIL cfg)
                             then 1 else 0)
          \<and> (\<forall>m. truthy_str (RESEND_API_KEY cfg) \<and> customer_email ord = Some m \<and> m \<noteq> [] \<longrightarrow>
                 mails = [CustomerConfirmation (order_number ord) m])
          \<and> alerts = (if truthy_str (NTFY_TOPIC cfg) then [StaffPush (order_number ord)] else [])
                     @ (if truthy_str (RESEND_API_KEY cfg) \<and> truthy_str (ADMIN_EMAIL cfg)
                        then [StaffEmail (order_number ord)] else [])
          \<and> sent (snd (stripe_webhook cfg now2 (Some ev)
                          (snd (stripe_webhook cfg now1 (Some ev) s))))
               = sent s @ mails @ alerts"
    by blast
  have cu: "customers (snd (stripe_webhook cfg now2 (Some ev)
                               (snd (stripe_webhook cfg now1 (Some ev) s))))
               = customers (update_customer_stats (Some ord) now1 s)"
    by (simp add: fin update_customer_stats_marked)
  show "map_option paid_at (find_order oid
                 (snd (stripe_webhook cfg now2 (Some ev)
                         (snd (stripe_webhook cfg now1 (Some ev) s)))))
               = Some (Some now1)"
    using webhook_after_first [OF a b c d e, of cfg now1] by (simp add: tw mark_paid_def)
  fix cid
  assume "customer_id ord = Some cid \<and> cid \<noteq> [] \<and> stats_fit cid (total ord) s"
  then have f: "customer_id ord = Some cid" "cid \<noteq> []" "stats_fit cid (total ord) s"
    by simp_all
  show "map order_count (customers (snd (stripe_webhook cfg now2 (Some ev)
                               (snd (stripe_webhook cfg now1 (Some ev) s)))))
                  = map (\<lambda>c. if cust_id c = cid then order_count c + 1 else order_count c)
                      (customers s)"
    unfolding cu using f by (rule update_customer_stats_counts(1))
  show "map total_spent (customers (snd (stripe_webhook cfg now2 (Some ev)
                               (snd (stripe_webhook cfg now1 (Some ev) s)))))
                  = map (\<lambda>c. if cust_id c = cid then total_spent c + total ord
                              else total_spent c) (customers s)"
    unfolding cu using f by (rule update_customer_stats_counts(2))
qed

lemma apply_status_update_stamps:
  "printed_at (apply_status_update now st req ord)
     = (if st = ''printing'' then Some now else printed_at ord)"
  "shipped_at (apply_status_update now st req ord)
     = (if st = ''shipped'' \<or> st = ''ready_pickup'' then Some now else shipped_at ord)"
  "completed_at (apply_status_update now st req ord)
     = (if st = ''completed'' then Some now else completed_at ord)"
  "paid_at (apply_status_update now st req ord) = paid_at ord"
  "status (apply_status_update now st req ord) = st"
  "order_id (apply_status_update now st req ord) = order_id ord"
  by (simp_all add: apply_status_update_def)

lemma update_order_status_authorized:
  assumes "verifyAdmin cfg idp s authHeader None = Some adm"
    and "new_status req = Some st" and "st \<in> set validStatuses"
  shows "update_order_status cfg idp now authHeader oid req s =
           (Success,
            logAdminAction (userId adm) ''update_order_status'' ''order'' oid
              (s\<lparr>orders := map (\<lambda>ord. if order_id ord = oid
                                       then apply_status_update now st req ord
                                       else ord) (orders s)\<rparr>))"
  using assms by (simp add: update_order_status_def)

text \<open>
  Claim C4, as amended. An authorized status update to \<open>printing\<close> sets \<open>printed_at\<close> to
  the current time, one to \<open>shipped\<close> or \<open>ready_pickup\<close> sets \<open>shipped_at\<close>, one to
  \<open>completed\<close> sets \<open>completed_at\<close>, in every case also when that timestamp is already
  set (it is overwritten); the milestone timestamps that do not belong to the new status,
  and \<open>paid_at\<close> always, are left unchanged, as is every other order.
\<close>

theorem C4_status_update_restamps:
  assumes "verifyAdmin cfg idp s authHeader None = Some adm"
    and "new_status req = Some st" and "st \<in> set validStatuses"
  shows "fst (update_order_status cfg idp now authHeader oid req s) = Success
       \<and> list_all2
           (\<lambda>before after.
              if order_id before = oid
              then printed_at after = (if st = ''printing'' then Some now else printed_at before)
                 \<and> shipped_at after = (if st = ''shipped'' \<or> st = ''ready_pickup'' then Some now
                                        else shipped_at before)
                 \<and> completed_at after = (if st = ''completed'' then Some now
                                          else completed_at before)
                 \<and> paid_at after = paid_at before
                 \<and> status after = st
              else after = before)
           (orders s) (orders (snd (update_order_status cfg idp now authHeader oid req s)))"
  by (simp add: update_order_status_authorized [OF assms] logAdminAction_def list_all2_map2
        apply_status_update_stamps list_all2_same)

section \<open>Properties of order creation\<close>

lemma resolve_customer_orders:
  "orders (snd (resolve_customer env nm ph mail s)) = orders s"
  by (simp add: resolve_customer_def split: option.splits)

lemma create_order_Created:
  assumes "create_order env req s = (Created r, s')"
  shows "\<exists>nm ph pt q sub.
           required_fields req = Some (nm, ph, pt, q)
         \<and> calculatePrice q pt = Inr sub
         \<and> generateOrderNumber env s \<notin> set (map order_number (orders s))
         \<and> orders s' = orders s @
              [new_order env req nm ph pt q (generateOrderNumber env s)
                 (fst (resolve_customer env nm ph (customerEmail req) s))
                 (order_promo (promoCode req) s) sub]
         \<and> r = \<lparr>resp_orderId = fresh_order_id env,
                 resp_orderNumber = generateOrderNumber env s,
                 resp_subtotal = sub,
                 resp_shippingCost = shippingCost (shippingType req),
                 resp_discountAmount = discountAmount (order_promo (promoCode req) s) sub,
                 resp_total = sub + shippingCost (shippingType req)
                                - discountAmount (order_promo (promoCode req) s) sub\<rparr>"
proof (cases "required_fields req")
  case None
  with assms show ?thesis by (simp add: create_order_def)
next
  case (Some f)
  obtain nm ph pt q where f: "f = (nm, ph, pt, q)" by (cases f) auto
  show ?thesis
  proof (cases "calculatePrice q pt")
    case (Inl e)
    with assms Some f show ?thesis
      by (simp add: create_order_def split: if_splits)
  next
    case (Inr sub)
    obtain cid s1 where rc: "resolve_customer env nm ph (customerEmail req) s = (cid, s1)"
      by (cases "resolve_customer env nm ph (customerEmail req) s") auto
    have o1: "orders s1 = orders s"
      using resolve_customer_orders [of env nm ph "customerEmail req" s] rc by simp
    from assms Some f Inr rc o1 show ?thesis
      by (auto simp add: create_order_def Let_def new_order_def split: if_splits)
  qed
qed


lemma price_positive:
  "calculatePrice q pt = Inr sub \<Longrightarrow> 0 < q \<Longrightarrow> 0 < sub"
  by (cases "pt \<in> set nonProductKeys")
     (auto simp add: calculatePrice_non_product calculatePrice_product split: if_splits)

lemma new_order_money:
  "total (new_order env req nm ph pt q num cid promo sub)
     = sub + shippingCost (shippingType req) - discountAmount promo sub"
  "subtotal (new_order env req nm ph pt q num cid promo sub) = sub"
  "shipping_cost (new_order env req nm ph pt q num cid promo sub) = shippingCost (shippingType req)"
  "discount_amount (new_order env req nm ph pt q num cid promo sub) = discountAmount promo sub"
  "quantity (new_order env req nm ph pt q num cid promo sub) = q"
  "shipping_type (new_order env req nm ph pt q num cid promo sub)
     = (case shippingType req of None \<Rightarrow> ''delivery'' | Some m \<Rightarrow> m)"
  "order_number (new_order env req nm ph pt q num cid promo sub) = num"
  "status (new_order env req nm ph pt q num cid promo sub) = ''pending''"
  by (simp_all add: new_order_def)

text \<open>
  Claim C2, as amended. For every order the system creates,
  \<open>total = subtotal + shipping_cost - discount_amount\<close>, with no clamping: the discount of
  a fixed promo is its full value, so \<open>total \<ge> 0\<close> holds exactly when the discount does not
  exceed \<open>subtotal + shipping_cost\<close>, and in particular for every order of positive
  quantity on which no promo is applied.
\<close>

theorem C2_total_not_clamped:
  assumes "create_order env req s = (Created r, s')"
  shows "total (last (orders s')) = subtotal (last (orders s')) + shipping_cost (last (orders s'))
                                      - discount_amount (last (orders s'))
       \<and> resp_total r = total (last (orders s'))
       \<and> discount_amount (last (orders s'))
            = discountAmount (order_promo (promoCode req) s) (subtotal (last (orders s')))
       \<and> (\<forall>p. order_promo (promoCode req) s = Some p \<and> discount_type p \<noteq> ''percentage'' \<longrightarrow>
              discount_amount (last (orders s')) = discount_value p)
       \<and> (0 \<le> total (last (orders s')) \<longleftrightarrow>
              discount_amount (last (orders s'))
                \<le> subtotal (last (orders s')) + shipping_cost (last (orders s')))
       \<and> (order_promo (promoCode req) s = None \<and> 0 < quantity (last (orders s')) \<longrightarrow>
              0 \<le> total (last (orders s')))"
proof -
  obtain nm ph pt q sub where
    p: "calculatePrice q pt = Inr sub"
    and o: "orders s' = orders s @
              [new_order env req nm ph pt q (generateOrderNumber env s)
                 (fst (resolve_customer env nm ph (customerEmail req) s))
                 (order_promo (promoCode req) s) sub]"
    and r: "r = \<lparr>resp_orderId = fresh_order_id env,
                 resp_orderNumber = generateOrderNumber env s,
                 resp_subtotal = sub,
                 resp_shippingCost = shippingCost (shippingType req),
                 resp_discountAmount = discountAmount (order_promo (promoCode req) s) sub,
                 resp_total = sub + shippingCost (shippingType req)
                                - discountAmount (order_promo (promoCode req) s) sub\<rparr>"
    using create_order_Created [OF assms] by blast
  have sh: "0 \<le> shippingCost (shippingType req)"
    by (simp add: shippingCost_def shipping_def)
  have pos: "0 < q \<Longrightarrow> 0 < sub"
    using p by (rule price_positive)
  show ?thesis
    using sh pos
    by (auto simp add: o r new_order_money discountAmount_def promo_discount_def)
qed

text \<open>
  Claim C9, as amended. For every created order the shipping cost is 0 iff the shipping
  mode is \<open>pickup\<close>; for every other mode (\<open>delivery\<close>, an absent mode, which is stored as
  \<open>delivery\<close>, or any other text) the flat fee of 800 is charged.
\<close>

theorem C9_shipping_fee_unless_pickup:
  assumes "create_order env req s = (Created r, s')"
  shows "shipping_cost (last (orders s')) = (if shippingType req = Some ''pickup'' then 0 else 800)
       \<and> resp_shippingCost r = shipping_cost (last (orders s'))
       \<and> shipping_type (last (orders s'))
            = (case shippingType req of None \<Rightarrow> ''delivery'' | Some m \<Rightarrow> m)
       \<and> (shipping_cost (last (orders s')) = 0 \<longleftrightarrow> shipping_type (last (orders s')) = ''pickup'')
       \<and> (shipping_cost (last (orders s')) = 800 \<longleftrightarrow> shipping_type (last (orders s')) \<noteq> ''pickup'')"
proof -
  obtain nm ph pt q sub where
    o: "orders s' = orders s @
              [new_order env req nm ph pt q (generateOrderNumber env s)
                 (fst (resolve_customer env nm ph (customerEmail req) s))
                 (order_promo (promoCode req) s) sub]"
    and r: "r = \<lparr>resp_orderId = fresh_order_id env,
                 resp_orderNumber = generateOrderNumber env s,
                 resp_subtotal = sub,
                 resp_shippingCost = shippingCost (shippingType req),
                 resp_discountAmount = discountAmount (order_promo (promoCode req) s) sub,
                 resp_total = sub + shippingCost (shippingType req)
                                - discountAmount (order_promo (promoCode req) s) sub\<rparr>"
    using create_order_Created [OF assms] by blast
  show ?thesis
    by (auto simp add: o r new_order_money shippingCost_def shipping_def split: option.splits)
qed

section \<open>Properties of order numbers\<close>



lemma show_nat_1: "n < 10 \<Longrightarrow> show_nat n = [digit_char n]"
  by (subst show_nat.simps) simp

lemma show_nat_2:
  "10 \<le> n \<Longrightarrow> n < 100 \<Longrightarrow> show_nat n = [digit_char (n div 10), digit_char (n mod 10)]"
  by (subst show_nat.simps) (simp add: show_nat_1)

lemma show_nat_3:
  "100 \<le> n \<Longrightarrow> n < 1000 \<Longrightarrow>
     show_nat n = [digit_char (n div 100), digit_char (n div 10 mod 10), digit_char (n mod 10)]"
  by (subst show_nat.simps) (simp add: show_nat_2 div_mult2_eq [symmetric])


lemma replicate_2: "replicate 2 x = [x, x]"
  by (simp add: numeral_2_eq_2)

lemma LPAD_3:
  assumes "n < 1000"
  shows "LPAD (show_nat n) 3 (CHR ''0'')
           = [digit_char (n div 100), digit_char (n div 10 mod 10), digit_char (n mod 10)]"
proof -
  have z: "digit_char 0 = CHR ''0''" by (simp add: digit_char_def)
  consider "n < 10" | "10 \<le> n" "n < 100" | "100 \<le> n" using assms by linarith
  then show ?thesis
  proof cases
    case 1
    then show ?thesis by (simp add: LPAD_def show_nat_1 z replicate_2)
  next
    case 2
    then show ?thesis by (simp add: LPAD_def show_nat_2 z)
  next
    case 3
    then show ?thesis using assms by (simp add: LPAD_def show_nat_3)
  qed
qed
























lemmas sample_defs = sample_config_def sample_idp_def sample_promos_def sample_order_def
  sample_state_def sample_event_def sample_env_def sample_request_def









section \<open>Worked examples\<close>

lemmas promo_eval = validate_promo_def find_active_promo_def single_def toUpperCase_def
  toUpperChar_def expired_def not_yet_active_def limit_reached_def below_minimum_def
  customer_limit_reached_def customer_usage_count_def quote_def promo_discount_def
  percentage_discount_example percentage_discount_zero

lemmas order_eval = create_order_def required_fields_def calculatePrice_def PRICING_def
  personal_def business_def shipping_def objectPrototypeKeys_def shippingCost_def order_promo_def
  find_active_promo_def single_def toUpperCase_def toUpperChar_def discountAmount_def
  promo_discount_def percentage_discount_example percentage_discount_zero row_fits_def
  int4_ok_def generateOrderNumber_def generate_order_number_def
  day_numbers_def like_today_def LPAD_3 digit_char_def resolve_customer_def new_order_def Let_def

lemmas auth_eval = verifyAdmin_def bearer_token_def is_owner_def toLowerCase_def toLowerChar_def
  single_def userLevel_def requiredLevel_def roleHierarchy_def objectPrototypeKeys_def Let_def

lemma sample_find_save10: "find_active_promo ''save10'' sample_state = Some (hd sample_promos)"
  by (simp add: sample_state_def sample_promos_def find_active_promo_def single_def
        toUpperCase_def toUpperChar_def)

text \<open>
  The code \<open>SAVE10\<close> expired at 2000 and asks for a minimum order of 5000. At time 3000,
  for a subtotal of 1000, it is rejected as expired.
\<close>

theorem C6_first_failing_check_wins_witness:
  "expired (hd sample_promos) 3000 \<and> below_minimum (hd sample_promos) (Some 1000)
   \<and> validate_promo 3000 \<lparr>req_code = Some ''save10'', req_subtotal = Some 1000,
                            req_customerId = None\<rparr> sample_state = Inl PromoExpired"
proof -
  have e: "expired (hd sample_promos) 3000"
    by (simp add: sample_promos_def expired_def)
  have b: "below_minimum (hd sample_promos) (Some 1000)"
    by (simp add: sample_promos_def below_minimum_def)
  have "validate_promo 3000 \<lparr>req_code = Some ''save10'', req_subtotal = Some 1000,
                            req_customerId = None\<rparr> sample_state = Inl PromoExpired"
    using C6_first_failing_check_wins [of "\<lparr>req_code = Some ''save10'', req_subtotal = Some 1000,
                            req_customerId = None\<rparr>" "''save10''" sample_state 3000]
      sample_find_save10 e b
    by auto
  with e b show ?thesis by simp
qed

text \<open>
  Before its expiry, \<open>SAVE10\<close> validates for a request without subtotal although its
  minimum order is 5000, with a discount of 0.
\<close>

theorem C10_minimum_skipped_without_subtotal_witness:
  "min_order_amount (hd sample_promos) = 5000
   \<and> validate_promo 1500 \<lparr>req_code = Some ''save10'', req_subtotal = None,
                            req_customerId = None\<rparr> sample_state
       = Inr \<lparr>promoId = ''p1'', quote_code = ''SAVE10'', discountType = ''percentage'',
              discountValue = 10, calculatedDiscount = 0\<rparr>"
proof -
  have c: "\<not> expired (hd sample_promos) 1500" "\<not> not_yet_active (hd sample_promos) 1500"
    "\<not> limit_reached (hd sample_promos)"
    "\<not> customer_limit_reached (hd sample_promos) None sample_state"
    by (simp_all add: sample_promos_def expired_def not_yet_active_def limit_reached_def
          customer_limit_reached_def)
  have q: "quote (hd sample_promos) None
             = \<lparr>promoId = ''p1'', quote_code = ''SAVE10'', discountType = ''percentage'',
                discountValue = 10, calculatedDiscount = 0\<rparr>"
    by (simp add: sample_promos_def quote_def promo_discount_def percentage_discount_zero)
  have "validate_promo 1500 \<lparr>req_code = Some ''save10'', req_subtotal = None,
                            req_customerId = None\<rparr> sample_state
          = Inr (quote (hd sample_promos) None)"
    using C10_minimum_skipped_without_subtotal [of "\<lparr>req_code = Some ''save10'',
            req_subtotal = None, req_customerId = None\<rparr>" 1500 sample_state]
      sample_find_save10 c
    by auto
  then show ?thesis by (simp add: q) (simp add: sample_promos_def)
qed

text \<open>
  Claim C3 says that order creation validates the promo code again in full before it
  applies a discount. The handler only looks the active code up. At time 3000 the
  validation endpoint rejects \<open>SAVE10\<close> as expired, and an order for 12 units created at
  the same time with that code gets its 10 percent, 840, off.
\<close>

theorem C3_expired_promo_still_discounts:
  "validate_promo 3000 \<lparr>req_code = Some ''save10'', req_subtotal = Some 8400,
                          req_customerId = None\<rparr> sample_state = Inl PromoExpired
   \<and> clock sample_env = 3000
   \<and> fst (create_order sample_env
             (sample_request\<lparr>req_quantity := Some 12, promoCode := Some ''save10''\<rparr>) sample_state)
       = Created \<lparr>resp_orderId = ''o2'', resp_orderNumber = ''HS-20240301-001'',
                  resp_subtotal = 8400, resp_shippingCost = 0, resp_discountAmount = 840,
                  resp_total = 7560\<rparr>"
  by (simp add: sample_defs promo_eval order_eval)

text \<open>
  Claim C2 as stated fails: one unit for pickup with the fixed promo \<open>FIXED20\<close> (2000 off)
  is created with a total of \<open>1000 + 0 - 2000 = -1000\<close>.
\<close>

theorem C2_counterexample:
  "fst (create_order sample_env (sample_request\<lparr>promoCode := Some ''fixed20''\<rparr>) sample_state)
     = Created \<lparr>resp_orderId = ''o2'', resp_orderNumber = ''HS-20240301-001'',
                resp_subtotal = 1000, resp_shippingCost = 0, resp_discountAmount = 2000,
                resp_total = - 1000\<rparr>
   \<and> total (last (orders (snd (create_order sample_env
                (sample_request\<lparr>promoCode := Some ''fixed20''\<rparr>) sample_state)))) = - 1000"
  by (simp add: sample_defs order_eval)

lemma sample_created:
  "create_order sample_env sample_request sample_state
     = (Created \<lparr>resp_orderId = ''o2'', resp_orderNumber = ''HS-20240301-001'',
                 resp_subtotal = 1000, resp_shippingCost = 0, resp_discountAmount = 0,
                 resp_total = 1000\<rparr>,
        snd (create_order sample_env sample_request sample_state))"
  by (simp add: prod_eq_iff) (simp add: sample_defs order_eval)

text \<open>The same order without a promo: total 1000.\<close>

theorem C2_total_not_clamped_witness:
  "total (last (orders (snd (create_order sample_env sample_request sample_state)))) = 1000
   \<and> subtotal (last (orders (snd (create_order sample_env sample_request sample_state)))) = 1000
   \<and> discount_amount (last (orders (snd (create_order sample_env sample_request sample_state)))) = 0"
  using C2_total_not_clamped [OF sample_created]
  by (simp add: sample_defs order_eval)

text \<open>
  Claim C9 as stated fails: an order whose shipping mode is \<open>express\<close>, not \<open>delivery\<close>, is
  created with that mode and is charged the fee of 800.
\<close>

theorem C9_counterexample:
  "fst (create_order sample_env (sample_request\<lparr>shippingType := Some ''express''\<rparr>) sample_state)
     = Created \<lparr>resp_orderId = ''o2'', resp_orderNumber = ''HS-20240301-001'',
                resp_subtotal = 1000, resp_shippingCost = 800, resp_discountAmount = 0,
                resp_total = 1800\<rparr>
   \<and> shipping_type (last (orders (snd (create_order sample_env
                (sample_request\<lparr>shippingType := Some ''express''\<rparr>) sample_state)))) = ''express''
   \<and> shipping_cost (last (orders (snd (create_order sample_env
                (sample_request\<lparr>shippingType := Some ''express''\<rparr>) sample_state)))) = 800"
  by (simp add: sample_defs order_eval)

text \<open>A pickup order is charged no shipping.\<close>

theorem C9_shipping_fee_unless_pickup_witness:
  "shipping_type (last (orders (snd (create_order sample_env sample_request sample_state)))) = ''pickup''
   \<and> shipping_cost (last (orders (snd (create_order sample_env sample_request sample_state)))) = 0"
  using C9_shipping_fee_unless_pickup [OF sample_created]
  by (simp add: sample_request_def)


lemmas webhook_eval = stripe_webhook_def confirm_payment_def find_order_def single_def mark_paid_def
  update_customer_stats_def increment_customer_stats_def stats_fit_def int4_ok_def
  sendOrderConfirmationEmail_def
  sendAdminNotification_def truthy_str_def Let_def

lemma sample_first_delivery:
  "snd (stripe_webhook sample_config 5000 (Some sample_event) sample_state)
     = sample_state
         \<lparr>orders := [sample_order\<lparr>status := ''paid'', stripe_payment_intent_id := Some ''pi_1'',
                                   stripe_checkout_session_id := Some ''cs_1'',
                                   paid_at := Some 5000, updated_at := 5000\<rparr>],
          customers := [\<lparr>cust_id = ''c1'', cust_phone = ''0400'', cust_name = ''Kim'',
                         cust_email = Some ''kim@example.com'', order_count = 1,
                         total_spent = 4800, cust_updated_at = 5000\<rparr>],
          sent := [CustomerConfirmation ''HS-20240229-001'' ''kim@example.com'',
                   StaffPush ''HS-20240229-001'', StaffEmail ''HS-20240229-001'']\<rparr>"
  by (simp add: sample_defs webhook_eval)

text \<open>
  Claim C1 as stated fails in its count of notifications: with the email key, the push
  topic and the staff address all configured, one confirmed payment sends three messages,
  and delivering the event again leaves three, not one; with neither key nor topic
  configured it sends none.
\<close>

theorem C1_counterexample:
  "sent sample_state = []
   \<and> length (sent (snd (stripe_webhook sample_config 5000 (Some sample_event) sample_state))) = 3
   \<and> length (sent (snd (stripe_webhook sample_config 9000 (Some sample_event)
                (snd (stripe_webhook sample_config 5000 (Some sample_event) sample_state))))) = 3
   \<and> length (sent (snd (stripe_webhook
                (sample_config\<lparr>RESEND_API_KEY := None, NTFY_TOPIC := None\<rparr>) 5000
                (Some sample_event) sample_state))) = 0"
proof (intro conjI)
  show "sent sample_state = []" by (simp add: sample_state_def)
  show "length (sent (snd (stripe_webhook sample_config 5000 (Some sample_event) sample_state))) = 3"
    by (simp add: sample_first_delivery)
  have "snd (stripe_webhook sample_config 9000 (Some sample_event)
                (snd (stripe_webhook sample_config 5000 (Some sample_event) sample_state)))
          = snd (stripe_webhook sample_config 5000 (Some sample_event) sample_state)"
    by (rule webhook_twice)
  then show "length (sent (snd (stripe_webhook sample_config 9000 (Some sample_event)
                (snd (stripe_webhook sample_config 5000 (Some sample_event) sample_state))))) = 3"
    by (simp add: sample_first_delivery)
  show "length (sent (snd (stripe_webhook
                (sample_config\<lparr>RESEND_API_KEY := None, NTFY_TOPIC := None\<rparr>) 5000
                (Some sample_event) sample_state))) = 0"
    by (simp add: sample_defs webhook_eval)
qed

text \<open>
  The confirmation of the pending sample order, delivered at time 5000 and again at 9000:
  the state after the second delivery is the state after the first, with \<open>paid_at\<close> 5000,
  one order counted for the customer and 4800 spent.
\<close>

theorem C1_payment_confirmation_idempotent_witness:
  "snd (stripe_webhook sample_config 9000 (Some sample_event)
          (snd (stripe_webhook sample_config 5000 (Some sample_event) sample_state)))
     = snd (stripe_webhook sample_config 5000 (Some sample_event) sample_state)
   \<and> map order_count (customers (snd (stripe_webhook sample_config 9000 (Some sample_event)
          (snd (stripe_webhook sample_config 5000 (Some sample_event) sample_state))))) = [1]
   \<and> map total_spent (customers (snd (stripe_webhook sample_config 9000 (Some sample_event)
          (snd (stripe_webhook sample_config 5000 (Some sample_event) sample_state))))) = [4800]
   \<and> map_option paid_at (find_order ''o1'' (snd (stripe_webhook sample_config 9000
          (Some sample_event)
          (snd (stripe_webhook sample_config 5000 (Some sample_event) sample_state)))))
       = Some (Some 5000)"
proof -
  have h: "event_type sample_event = ''checkout.session.completed''"
    "metadata_orderId (session sample_event) = Some ''o1''"
    "find_order ''o1'' sample_state = Some sample_order"
    "status sample_order = ''pending''"
    by (simp_all add: sample_event_def sample_state_def sample_order_def find_order_def single_def)
  have c: "customer_id sample_order = Some ''c1''" "total sample_order = 4800"
    "stats_fit ''c1'' 4800 sample_state"
    "customers sample_state = [\<lparr>cust_id = ''c1'', cust_phone = ''0400'', cust_name = ''Kim'',
                    cust_email = Some ''kim@example.com'', order_count = 0, total_spent = 0,
                    cust_updated_at = 100\<rparr>]"
    by (simp_all add: sample_order_def sample_state_def stats_fit_def int4_ok_def)
  note t = C1_payment_confirmation_idempotent [of sample_event sample_state sample_config 5000 9000]
  from t have 1: "snd (stripe_webhook sample_config 9000 (Some sample_event)
          (snd (stripe_webhook sample_config 5000 (Some sample_event) sample_state)))
     = snd (stripe_webhook sample_config 5000 (Some sample_event) sample_state)"
    by blast
  from t h c have 2: "map order_count (customers (snd (stripe_webhook sample_config 9000
          (Some sample_event)
          (snd (stripe_webhook sample_config 5000 (Some sample_event) sample_state)))))
        = map (\<lambda>c. if cust_id c = ''c1'' then order_count c + 1 else order_count c)
            (customers sample_state)"
    by auto
  from t h c have 3: "map total_spent (customers (snd (stripe_webhook sample_config 9000
          (Some sample_event)
          (snd (stripe_webhook sample_config 5000 (Some sample_event) sample_state)))))
        = map (\<lambda>c. if cust_id c = ''c1'' then total_spent c + total sample_order
                    else total_spent c) (customers sample_state)"
    by auto
  from t h have 4: "map_option paid_at (find_order ''o1'' (snd (stripe_webhook sample_config 9000
          (Some sample_event)
          (snd (stripe_webhook sample_config 5000 (Some sample_event) sample_state)))))
       = Some (Some 5000)"
    by auto
  from 1 2 3 4 show ?thesis by (simp add: c)
qed

lemma sample_admin_verified:
  "verifyAdmin sample_config sample_idp sample_state (Some ''Bearer t-admin'') None
     = Some \<lparr>userId = ''u-admin'', email = Some ''admin@example.com'', principal_role = ''admin''\<rparr>"
  by (simp add: sample_config_def sample_idp_def sample_state_def auth_eval)

text \<open>
  Claim C4 as stated fails: an order in state \<open>printing\<close> since time 500 that staff set to
  \<open>printing\<close> again at time 3000 has its \<open>printed_at\<close> overwritten with 3000.
\<close>

theorem C4_counterexample:
  "map printed_at (orders (sample_state\<lparr>orders := [sample_order\<lparr>status := ''printing'',
                                                              printed_at := Some 500\<rparr>]\<rparr>))
     = [Some 500]
   \<and> update_order_status sample_config sample_idp 3000 (Some ''Bearer t-admin'') ''o1''
        \<lparr>new_status = Some ''printing'', new_tracking_number = None, new_carrier = None,
         new_admin_notes = None\<rparr>
        (sample_state\<lparr>orders := [sample_order\<lparr>status := ''printing'', printed_at := Some 500\<rparr>]\<rparr>)
     = (Success,
        sample_state
          \<lparr>orders := [sample_order\<lparr>status := ''printing'', printed_at := Some 3000,
                                    updated_at := 3000\<rparr>],
           admin_logs := [\<lparr>log_admin_id = ''u-admin'', log_action = ''update_order_status'',
                           log_target_type = ''order'', log_target_id = ''o1''\<rparr>]\<rparr>)"
  by (simp add: sample_config_def sample_idp_def sample_state_def sample_order_def auth_eval
        update_order_status_def validStatuses_def apply_status_update_def logAdminAction_def
        truthy_str_def)

text \<open>Completing the sample order stamps \<open>completed_at\<close> and leaves \<open>printed_at\<close> empty.\<close>

theorem C4_status_update_restamps_witness:
  "fst (update_order_status sample_config sample_idp 3000 (Some ''Bearer t-admin'') ''o1''
         \<lparr>new_status = Some ''completed'', new_tracking_number = None, new_carrier = None,
          new_admin_notes = None\<rparr> sample_state) = Success
   \<and> map completed_at (orders (snd (update_order_status sample_config sample_idp 3000
         (Some ''Bearer t-admin'') ''o1''
         \<lparr>new_status = Some ''completed'', new_tracking_number = None, new_carrier = None,
          new_admin_notes = None\<rparr> sample_state))) = [Some 3000]
   \<and> map printed_at (orders (snd (update_order_status sample_config sample_idp 3000
         (Some ''Bearer t-admin'') ''o1''
         \<lparr>new_status = Some ''completed'', new_tracking_number = None, new_carrier = None,
          new_admin_notes = None\<rparr> sample_state))) = [None]"
proof -
  have st: "new_status \<lparr>new_status = Some ''completed'', new_tracking_number = None,
              new_carrier = None, new_admin_notes = None\<rparr> = Some ''completed''"
    by simp
  have v: "''completed'' \<in> set validStatuses" by (simp add: validStatuses_def)
  have o: "orders sample_state = [sample_order]" by (simp add: sample_state_def)
  have i: "order_id sample_order = ''o1''" "printed_at sample_order = None"
    by (simp_all add: sample_order_def)
  show ?thesis
    using C4_status_update_restamps [OF sample_admin_verified st v, of 3000 "''o1''"]
    by (auto simp add: o i list_all2_Cons1)
qed

text \<open>
  The owner of the allowlist has no row in the admin table and is granted as owner; a
  user with neither is denied; the admin is denied where \<open>super_admin\<close> is required and
  granted where nothing is specified; removing the owner is refused.
\<close>

theorem C5_authorization_witness:
  "verifyAdmin sample_config sample_idp sample_state (Some ''Bearer t-owner'') (Some ''super_admin'')
     = Some \<lparr>userId = ''u-owner'', email = Some ''Owner@Example.com'', principal_role = ''owner''\<rparr>
   \<and> verifyAdmin sample_config sample_idp sample_state (Some ''Bearer t-guest'') None = None
   \<and> verifyAdmin sample_config sample_idp sample_state (Some ''Bearer t-admin'') (Some ''super_admin'')
       = None
   \<and> verifyAdmin sample_config sample_idp sample_state (Some ''Bearer t-admin'') None
       = Some \<lparr>userId = ''u-admin'', email = Some ''admin@example.com'', principal_role = ''admin''\<rparr>
   \<and> remove_admin sample_config sample_idp (Some ''Bearer t-owner'') ''u-owner'' sample_state
       = (CannotRemoveOwner, sample_state)"
proof -
  let ?owner = "\<lparr>user_id = ''u-owner'', user_email = Some ''Owner@Example.com''\<rparr>"
  let ?admin = "\<lparr>user_id = ''u-admin'', user_email = Some ''admin@example.com''\<rparr>"
  let ?guest = "\<lparr>user_id = ''u-guest'', user_email = Some ''guest@example.com''\<rparr>"
  have tok: "bearer_token (Some ''Bearer t-owner'') = Some ''t-owner''"
    "bearer_token (Some ''Bearer t-admin'') = Some ''t-admin''"
    "bearer_token (Some ''Bearer t-guest'') = Some ''t-guest''"
    by (simp_all add: bearer_token_def)
  have usr: "getUser sample_idp ''t-owner'' = Some ?owner"
    "getUser sample_idp ''t-admin'' = Some ?admin"
    "getUser sample_idp ''t-guest'' = Some ?guest"
    "getUserById sample_idp ''u-owner'' = Some ?owner"
    by (simp_all add: sample_idp_def)
  have own: "is_owner sample_config (user_email ?owner)"
    "\<not> is_owner sample_config (user_email ?admin)"
    "\<not> is_owner sample_config (user_email ?guest)"
    by (simp_all add: is_owner_def sample_config_def toLowerCase_def toLowerChar_def)
  have row: "single (filter (\<lambda>a. admin_user_id a = user_id ?admin) (admins sample_state))
               = Some \<lparr>admin_user_id = ''u-admin'', role = ''admin''\<rparr>"
    "single (filter (\<lambda>a. admin_user_id a = user_id ?guest) (admins sample_state)) = None"
    by (simp_all add: sample_state_def single_def)
  have lv: "spec_level ''admin'' = 2" "spec_required_level (Some ''super_admin'') = 3"
    "spec_required_level None = 2" "''super_admin'' \<notin> set objectPrototypeKeys"
    by (simp_all add: spec_level_def spec_required_level_def objectPrototypeKeys_def)
  note o = C5_authorization [OF tok(1) usr(1), of sample_config sample_state "Some ''super_admin''"]
  note g = C5_authorization [OF tok(3) usr(3), of sample_config sample_state None]
  note a1 = C5_authorization [OF tok(2) usr(2), of sample_config sample_state "Some ''super_admin''"]
  note a2 = C5_authorization [OF tok(2) usr(2), of sample_config sample_state None]
  have 1: "verifyAdmin sample_config sample_idp sample_state (Some ''Bearer t-owner'')
             (Some ''super_admin'')
     = Some \<lparr>userId = ''u-owner'', email = Some ''Owner@Example.com'', principal_role = ''owner''\<rparr>"
    using o own(1) by simp
  have 2: "verifyAdmin sample_config sample_idp sample_state (Some ''Bearer t-guest'') None = None"
    using g own(3) row(2) by simp
  have 3: "verifyAdmin sample_config sample_idp sample_state (Some ''Bearer t-admin'')
             (Some ''super_admin'') = None"
    using a1 own(2) row(1) lv by auto
  have 4: "verifyAdmin sample_config sample_idp sample_state (Some ''Bearer t-admin'') None
       = Some \<lparr>userId = ''u-admin'', email = Some ''admin@example.com'', principal_role = ''admin''\<rparr>"
    using a2 own(2) row(1) lv by auto
  have 5: "remove_admin sample_config sample_idp (Some ''Bearer t-owner'') ''u-owner'' sample_state
       = (CannotRemoveOwner, sample_state)"
    using o own(1) usr(4) 1 by (auto simp add: prod_eq_iff)
  from 1 2 3 4 5 show ?thesis by simp
qed

end
